theory Spec2Isabelle
  imports Main "HOL-Library.Word"
begin

section \<open>Data model of sheep/group.c\<close>

text \<open>
  The cluster membership core of the sheep daemon.  Integers of a fixed width are words;
  C arrays passed with an explicit length are lists passed with that length; counters of
  type \<open>int\<close> are integers.  Functions that reach outside the file (the epoch log on
  disk, the network, the store driver) read from an explicit environment.
\<close>

type_synonym u8 = "8 word"
type_synonym u16 = "16 word"
type_synonym u32 = "32 word"
type_synonym u64 = "64 word"

text \<open>
  \<open>struct sd_node\<close> is declared in sheepdog_proto.h.
  Modelled from the spec: a node is \<open>{addr: 16 bytes, port: u16, zone: u32, nr_vnodes: u16}\<close>.
\<close>

record sd_node =
  addr :: "u8 list"
  port :: u16
  nr_vnodes :: u16
  zone :: u32

text \<open>
  Modelled from the spec: \<open>node_eq\<close> (sheepdog_proto.h) - two nodes are equal iff
  \<open>(addr, port)\<close> match.
\<close>

definition node_eq :: "sd_node \<Rightarrow> sd_node \<Rightarrow> bool" where
  "node_eq a b = (addr a = addr b \<and> port a = port b)"

subsection \<open>Zones and replication degree\<close>

text \<open>
  The inner loop of \<open>get_zones_nr_from\<close>: the index \<open>j\<close> at which
  \<open>for (j = 0; j < nr_zones; j++) if (nodes[i].zone == zones[j]) break;\<close> stops, over
  the filled part of the array \<open>zones\<close>.
\<close>

fun zones_scan :: "u32 \<Rightarrow> u32 list \<Rightarrow> nat" where
  "zones_scan z [] = 0"
| "zones_scan z (y # ys) = (if z = y then 0 else Suc (zones_scan z ys))"

text \<open>
  The outer loop, over the nodes still to visit; \<open>zones\<close> is the filled part of the
  array and \<open>length zones\<close> is \<open>nr_zones\<close>.  \<open>max_red\<close> is
  \<open>ARRAY_SIZE(zones) = SD_MAX_REDUNDANCY\<close>, a constant of sheepdog_proto.h.
\<close>

fun get_zones_loop :: "nat \<Rightarrow> sd_node list \<Rightarrow> u32 list \<Rightarrow> nat" where
  "get_zones_loop max_red [] zones = length zones"
| "get_zones_loop max_red (n # ns) zones =
     (if nr_vnodes n = 0 then get_zones_loop max_red ns zones
      else if zones_scan (zone n) zones = length zones then
        (if Suc (length zones) = max_red then Suc (length zones)
         else get_zones_loop max_red ns (zones @ [zone n]))
      else get_zones_loop max_red ns zones)"

definition get_zones_nr_from :: "nat \<Rightarrow> sd_node list \<Rightarrow> int \<Rightarrow> int" where
  "get_zones_nr_from max_red nodes nr_nodes =
     int (get_zones_loop max_red (take (nat nr_nodes) nodes) [])"

text \<open>
  The conversions of C on an LP64 machine, on the values as integers: to \<open>size_t\<close>
  (64 bits, unsigned), to \<open>unsigned int\<close> (32 bits), and to \<open>int\<close> (32 bits, two's
  complement).
\<close>

definition to_size_t :: "int \<Rightarrow> int" where
  "to_size_t x = x mod 2 ^ 64"

definition to_uint32 :: "int \<Rightarrow> int" where
  "to_uint32 x = x mod 2 ^ 32"

definition to_int32 :: "int \<Rightarrow> int" where
  "to_int32 x = (let y = x mod 2 ^ 32 in if y < 2 ^ 31 then y else y - 2 ^ 32)"

text \<open>The \<open>min\<close> macro of util.h, on two values of one type: \<open>_x < _y ? _x : _y\<close>.\<close>

definition min_macro :: "int \<Rightarrow> int \<Rightarrow> int" where
  "min_macro x y = (if x < y then x else y)"

text \<open>
  \<open>sys->nr_copies\<close> is an unsigned 32-bit field of \<open>struct cluster_info\<close>
  (sheep_priv.h); the functions that read it take it as the argument \<open>nr_copies\<close>.
  \<open>get_max_nr_copies_from\<close> casts it to \<open>int\<close> and compares two \<open>int\<close>s.
\<close>

definition get_max_nr_copies_from :: "nat \<Rightarrow> u32 \<Rightarrow> sd_node list \<Rightarrow> int \<Rightarrow> int" where
  "get_max_nr_copies_from max_red nr_copies nodes nr_nodes =
     min_macro (to_int32 (uint nr_copies)) (get_zones_nr_from max_red nodes nr_nodes)"

record 'v vnode_info =
  vi_entries :: "'v list"
  vi_nr_vnodes :: int
  nr_zones :: int
  refcnt :: int

text \<open>
  \<open>update_vnode_info\<close> builds the snapshot that replaces \<open>current_vnode_info\<close>.
  \<open>nodes_to_vnodes\<close> is a function of another file and is a parameter; \<open>nodes\<close> and
  \<open>nr_nodes\<close> are \<open>sys->nodes\<close> and \<open>sys->nr_nodes\<close>.  The allocation can fail, then
  the function returns 1 and publishes nothing.
\<close>

definition update_vnode_info ::
  "nat \<Rightarrow> (sd_node list \<Rightarrow> 'v list) \<Rightarrow> bool \<Rightarrow> sd_node list \<Rightarrow> int \<Rightarrow>
   'v vnode_info option \<Rightarrow> int \<times> 'v vnode_info option" where
  "update_vnode_info max_red nodes_to_vnodes alloc_ok nodes nr_nodes current =
     (if \<not> alloc_ok then (1, current)
      else (0, Some \<lparr> vi_entries = nodes_to_vnodes (take (nat nr_nodes) nodes),
                      vi_nr_vnodes = int (length (nodes_to_vnodes (take (nat nr_nodes) nodes))),
                      nr_zones = get_zones_nr_from max_red nodes nr_nodes,
                      refcnt = 1 \<rparr>))"

text \<open>
  \<open>get_nr_copies\<close> gives the macro an \<open>int\<close> and an \<open>unsigned int\<close>: for the comparison
  and for the value of the conditional, \<open>nr_zones\<close> is converted to \<open>unsigned int\<close>; the
  \<open>return\<close> converts the result to \<open>int\<close>.
\<close>

definition get_nr_copies :: "u32 \<Rightarrow> 'v vnode_info \<Rightarrow> int" where
  "get_nr_copies nr_copies vnode_info =
     to_int32 (min_macro (to_uint32 (nr_zones vnode_info)) (uint nr_copies))"

subsection \<open>Cluster status, result codes, the join message\<close>

text \<open>
  The \<open>SD_STATUS_*\<close> values of sheepdog_proto.h that this file names, and the
  \<open>sys_stat_*\<close> tests of sheep_priv.h.
  Modelled from the spec: \<open>sys_can_recover() \<equiv> status \<in> {Ok, Halt}\<close>; each
  \<open>sys_stat_x()\<close> tests the status for the value \<open>x\<close>.
\<close>

datatype sd_status =
  SD_STATUS_OK | SD_STATUS_WAIT_FOR_FORMAT | SD_STATUS_WAIT_FOR_JOIN
| SD_STATUS_SHUTDOWN | SD_STATUS_JOIN_FAILED | SD_STATUS_HALT

datatype sd_res =
  SD_RES_SUCCESS | SD_RES_EIO | SD_RES_VER_MISMATCH | SD_RES_INVALID_CTIME
| SD_RES_OLD_NODE_VER | SD_RES_NEW_NODE_VER | SD_RES_INVALID_EPOCH
| SD_RES_NOT_FORMATTED | SD_RES_SHUTDOWN

datatype cluster_join_result =
  CJ_RES_SUCCESS | CJ_RES_FAIL | CJ_RES_JOIN_LATER | CJ_RES_MASTER_TRANSFER

text \<open>
  \<open>struct join_message\<close>.  The union of \<open>nodes[0]\<close> and \<open>leave_nodes[0]\<close> is one
  flexible array: \<open>jm_nodes\<close> is its content, read as \<open>nodes\<close> through
  \<open>jm_nr_nodes\<close> and as \<open>leave_nodes\<close> through \<open>jm_nr_leave_nodes\<close>.  The 32-bit
  fields \<open>cluster_status\<close> and \<open>result\<close> hold a status and a result code.
\<close>

record join_message =
  jm_proto_ver :: u8
  jm_nr_copies :: u8
  jm_nr_nodes :: u16
  jm_nr_leave_nodes :: u16
  jm_cluster_flags :: u16
  jm_cluster_status :: sd_status
  jm_epoch :: u32
  jm_ctime :: u64
  jm_result :: sd_res
  jm_inc_epoch :: u8
  jm_store :: string
  jm_nodes :: "sd_node list"

text \<open>
  \<open>get_join_message_size\<close>; \<open>sizeof_jm\<close> is \<open>sizeof(*jm)\<close> and \<open>sizeof_node\<close> is
  \<open>sizeof(jm->nodes[0])\<close>, both fixed by declarations outside this file.
\<close>

definition get_join_message_size :: "nat \<Rightarrow> nat \<Rightarrow> join_message \<Rightarrow> nat" where
  "get_join_message_size sizeof_jm sizeof_node jm =
     sizeof_jm + unat (jm_nr_nodes jm) * sizeof_node"

text \<open>
  What the functions of this file read from outside it: the protocol version constant,
  the epoch log and the cluster creation time kept on disk (store.c), and the name of
  the store driver when \<open>sd_store\<close> is set.  \<open>epoch_log_calls\<close> lists the calls of
  \<open>update_epoch_log\<close> made so far, with the epoch and the nodes passed.
\<close>

record env =
  SD_SHEEP_PROTO_VER :: u8
  latest_epoch :: u32
  cluster_ctime :: u64
  epoch_log :: "u32 \<Rightarrow> sd_node list option"
  sd_store :: "string option"
  epoch_log_calls :: "(u32 \<times> sd_node list) list"

text \<open>
  Modelled from the spec: the epoch log maps an epoch number to a node list, and reading
  a missing epoch yields "not found".  \<open>epoch_log_read_nr\<close> (store.c) returns the number
  of nodes of the entry and fills the buffer with them, or returns a negative number.
\<close>

definition epoch_log_read_nr :: "env \<Rightarrow> u32 \<Rightarrow> int \<times> sd_node list" where
  "epoch_log_read_nr e epoch =
     (case epoch_log e epoch of None \<Rightarrow> (- 1, []) | Some ns \<Rightarrow> (int (length ns), ns))"

text \<open>The fields of \<open>struct cluster_info\<close> (\<open>sys\<close>) that the modelled functions use.\<close>

record cluster_info =
  this_node :: sd_node
  sys_epoch :: u32
  sys_status :: sd_status
  sys_flags :: u16
  sys_nr_copies :: u32
  sys_nodes :: "sd_node list"
  leave_list :: "sd_node list"
  join_finished :: bool

definition sys_stat_ok :: "cluster_info \<Rightarrow> bool" where
  "sys_stat_ok sys = (sys_status sys = SD_STATUS_OK)"

definition sys_stat_wait_format :: "cluster_info \<Rightarrow> bool" where
  "sys_stat_wait_format sys = (sys_status sys = SD_STATUS_WAIT_FOR_FORMAT)"

definition sys_stat_wait_join :: "cluster_info \<Rightarrow> bool" where
  "sys_stat_wait_join sys = (sys_status sys = SD_STATUS_WAIT_FOR_JOIN)"

definition sys_stat_shutdown :: "cluster_info \<Rightarrow> bool" where
  "sys_stat_shutdown sys = (sys_status sys = SD_STATUS_SHUTDOWN)"

definition sys_can_recover :: "cluster_info \<Rightarrow> bool" where
  "sys_can_recover sys = (sys_status sys = SD_STATUS_OK \<or> sys_status sys = SD_STATUS_HALT)"

definition get_nodes_nr_from :: "sd_node list \<Rightarrow> int" where
  "get_nodes_nr_from l = int (length l)"

subsection \<open>Join admission\<close>

text \<open>
  \<open>cluster_sanity_check\<close>.  \<open>entries\<close> holds at least \<open>nr_entries\<close> nodes; \<open>memcmp\<close>
  over \<open>nr_entries\<close> nodes compares the two prefixes of that length.
\<close>

definition cluster_sanity_check ::
  "env \<Rightarrow> cluster_info \<Rightarrow> sd_node list \<Rightarrow> int \<Rightarrow> u64 \<Rightarrow> u32 \<Rightarrow> sd_res" where
  "cluster_sanity_check e sys entries nr_entries ctime epoch =
     (if sys_stat_wait_format sys \<or> sys_stat_shutdown sys then SD_RES_SUCCESS
      else if nr_entries = 0 then SD_RES_SUCCESS
      else if ctime \<noteq> cluster_ctime e then SD_RES_INVALID_CTIME
      else if epoch > latest_epoch e then SD_RES_OLD_NODE_VER
      else if sys_can_recover sys then SD_RES_SUCCESS
      else if epoch < latest_epoch e then SD_RES_NEW_NODE_VER
      else
        (case epoch_log_read_nr e epoch of (nr_local_entries, local_entries) \<Rightarrow>
           if nr_entries \<noteq> nr_local_entries \<or>
              take (nat nr_entries) entries \<noteq> take (nat nr_entries) local_entries
           then SD_RES_INVALID_EPOCH
           else SD_RES_SUCCESS))"

text \<open>
  \<open>get_cluster_status\<close> returns \<open>ret\<close>, the value stored through \<open>status\<close> and the value
  stored through \<open>inc_epoch\<close> when that pointer is not null.  In the
  \<open>SD_STATUS_WAIT_FOR_JOIN\<close> case with \<open>nr == nr_local_entries\<close>, the loop over
  \<open>local_entries\<close> writes nothing and is followed by \<open>*status = SD_STATUS_OK\<close> on every
  path.
\<close>

definition get_cluster_status ::
  "env \<Rightarrow> cluster_info \<Rightarrow> sd_node \<Rightarrow> sd_node list \<Rightarrow> int \<Rightarrow> u64 \<Rightarrow> u32 \<Rightarrow>
   sd_res \<times> sd_status \<times> u8" where
  "get_cluster_status e sys from entries nr_entries ctime epoch =
     (let sys_stat = sys_status sys;
          ret = cluster_sanity_check e sys entries nr_entries ctime epoch
      in if ret \<noteq> SD_RES_SUCCESS then (ret, sys_stat, 0)
         else
           (case sys_stat of
              SD_STATUS_HALT \<Rightarrow> (SD_RES_SUCCESS, sys_stat, 1)
            | SD_STATUS_OK \<Rightarrow> (SD_RES_SUCCESS, sys_stat, 1)
            | SD_STATUS_WAIT_FOR_FORMAT \<Rightarrow>
                (if nr_entries \<noteq> 0 then (SD_RES_NOT_FORMATTED, sys_stat, 0)
                 else (SD_RES_SUCCESS, sys_stat, 0))
            | SD_STATUS_WAIT_FOR_JOIN \<Rightarrow>
                (let nr = int (length (sys_nodes sys)) + 1;
                     nr_local_entries = fst (epoch_log_read_nr e epoch)
                 in if nr \<noteq> nr_local_entries then
                      (let nr_leave_entries = get_nodes_nr_from (leave_list sys)
                       in if nr_local_entries = nr + nr_leave_entries
                          then (SD_RES_SUCCESS, SD_STATUS_OK, 1)
                          else (SD_RES_SUCCESS, sys_stat, 0))
                    else (SD_RES_SUCCESS, SD_STATUS_OK, 0))
            | SD_STATUS_SHUTDOWN \<Rightarrow> (SD_RES_SHUTDOWN, sys_stat, 0)
            | SD_STATUS_JOIN_FAILED \<Rightarrow> (SD_RES_SUCCESS, sys_stat, 0)))"

text \<open>
  Modelled from the spec: \<open>read_epoch\<close> (store.c) reads the latest epoch, its log entry
  and the cluster creation time; a missing entry is an I/O error.
\<close>

definition read_epoch :: "env \<Rightarrow> sd_res \<times> u32 \<times> u64 \<times> sd_node list \<times> int" where
  "read_epoch e =
     (case epoch_log e (latest_epoch e) of
        None \<Rightarrow> (SD_RES_EIO, latest_epoch e, 0, [], 0)
      | Some ns \<Rightarrow> (SD_RES_SUCCESS, latest_epoch e, cluster_ctime e, ns, int (length ns)))"

text \<open>
  \<open>sd_check_join_cb\<close> returns the join result, the message as it leaves the function and
  \<open>sys\<close> (whose epoch the self branch sets).  Copying the leave list writes it over the
  front of the flexible array.
\<close>

definition sd_check_join_cb ::
  "env \<Rightarrow> cluster_info \<Rightarrow> sd_node \<Rightarrow> join_message \<Rightarrow>
   cluster_join_result \<times> join_message \<times> cluster_info" where
  "sd_check_join_cb e sys joining jm =
     (if jm_proto_ver jm \<noteq> SD_SHEEP_PROTO_VER e then
        (CJ_RES_FAIL, jm\<lparr>jm_result := SD_RES_VER_MISMATCH\<rparr>, sys)
      else if node_eq joining (this_node sys) then
        (case read_epoch e of (ret, epoch, ctime, entries, nr_entries) \<Rightarrow>
           if ret = SD_RES_SUCCESS then
             (let sys' = sys\<lparr>sys_epoch := epoch\<rparr>;
                  st = fst (snd (get_cluster_status e sys' joining entries nr_entries ctime epoch))
              in (CJ_RES_SUCCESS, jm\<lparr>jm_ctime := ctime, jm_cluster_status := st\<rparr>, sys'))
           else
             (CJ_RES_SUCCESS, jm\<lparr>jm_cluster_status := SD_STATUS_WAIT_FOR_FORMAT\<rparr>, sys))
      else
        (case get_cluster_status e sys joining (jm_nodes jm) (uint (jm_nr_nodes jm))
                (jm_ctime jm) (jm_epoch jm) of
           (ret, st, inc) \<Rightarrow>
             (let jm1 = jm\<lparr>jm_result := ret, jm_cluster_status := st, jm_inc_epoch := inc,
                           jm_nr_copies := ucast (sys_nr_copies sys),
                           jm_cluster_flags := sys_flags sys,
                           jm_ctime := cluster_ctime e,
                           jm_nr_leave_nodes := 0,
                           jm_store := (case sd_store e of None \<Rightarrow> jm_store jm | Some name \<Rightarrow> name)\<rparr>
              in if ret = SD_RES_SUCCESS \<and> st \<noteq> SD_STATUS_OK then
                   (CJ_RES_SUCCESS,
                    jm1\<lparr>jm_nodes := leave_list sys @ drop (length (leave_list sys)) (jm_nodes jm1),
                        jm_nr_leave_nodes := of_nat (length (leave_list sys)),
                        jm_epoch := sys_epoch sys\<rparr>,
                    sys)
                 else if ret \<noteq> SD_RES_SUCCESS \<and> jm_epoch jm > sys_epoch sys \<and>
                         st = SD_STATUS_WAIT_FOR_JOIN then
                   (CJ_RES_MASTER_TRANSFER, jm1, sys)
                 else
                   ((case ret of
                       SD_RES_SUCCESS \<Rightarrow> CJ_RES_SUCCESS
                     | SD_RES_OLD_NODE_VER \<Rightarrow> CJ_RES_JOIN_LATER
                     | SD_RES_NEW_NODE_VER \<Rightarrow> CJ_RES_JOIN_LATER
                     | _ \<Rightarrow> CJ_RES_FAIL),
                    jm1\<lparr>jm_epoch := sys_epoch sys\<rparr>, sys))))"

subsection \<open>Ways a handler can end\<close>

text \<open>
  A handler returns, or ends the process: \<open>exit(1)\<close>, \<open>abort()\<close>, or \<open>panic\<close> after a
  failed allocation.
\<close>

datatype 'a outcome = Exit int | Abort | Panic | Return 'a

subsection \<open>The leave-set and the rejected join\<close>



text \<open>
  Modelled from the spec: a node \<open>{addr: 16 bytes, port: u16, zone: u32, nr_vnodes: u16}\<close>
  takes 24 bytes; \<open>epoch_log_read\<close> (store.c) returns the number of bytes of the entry it
  read, or -1 when the epoch has no entry.
\<close>

definition sizeof_sd_node :: nat where
  "sizeof_sd_node = 24"

definition epoch_log_read :: "env \<Rightarrow> u32 \<Rightarrow> int" where
  "epoch_log_read e epoch =
     (case epoch_log e epoch of None \<Rightarrow> - 1 | Some ns \<Rightarrow> int (length ns * sizeof_sd_node))"

text \<open>
  \<open>get_nodes_nr_epoch\<close>: in \<open>nr /= sizeof(nodes[0])\<close> the \<open>int\<close> is converted to
  \<open>size_t\<close>, divided, and the quotient is stored back into the \<open>int\<close>.
\<close>

definition get_nodes_nr_epoch :: "env \<Rightarrow> u32 \<Rightarrow> int" where
  "get_nodes_nr_epoch e epoch =
     (let nr = epoch_log_read e epoch
      in to_int32 (to_size_t nr div int sizeof_sd_node))"




subsection \<open>The leave event: majority check\<close>

text \<open>
  The loop of \<open>check_majority\<close> over the nodes still to probe.  \<open>connect_to\<close> tells
  whether the TCP connection to a node succeeds (\<open>fd >= 0\<close>).
\<close>

fun majority_loop :: "(sd_node \<Rightarrow> bool) \<Rightarrow> int \<Rightarrow> sd_node list \<Rightarrow> int \<Rightarrow> int" where
  "majority_loop connect_to nr_majority [] nr_reachable = 0"
| "majority_loop connect_to nr_majority (n # ns) nr_reachable =
     (if \<not> connect_to n then majority_loop connect_to nr_majority ns nr_reachable
      else if nr_reachable + 1 \<ge> nr_majority then 1
      else majority_loop connect_to nr_majority ns (nr_reachable + 1))"

definition check_majority :: "(sd_node \<Rightarrow> bool) \<Rightarrow> sd_node list \<Rightarrow> int \<Rightarrow> int" where
  "check_majority connect_to nodes nr_nodes =
     (let nr_majority = nr_nodes div 2 + 1
      in if nr_nodes < 3 then 1
         else majority_loop connect_to nr_majority (take (nat nr_nodes) nodes) 0)"

record work_leave =
  wl_member_list :: "sd_node list"
  wl_member_list_entries :: nat
  wl_left :: sd_node

text \<open>\<open>__sd_leave\<close>.\<close>

definition sd_leave :: "(sd_node \<Rightarrow> bool) \<Rightarrow> work_leave \<Rightarrow> unit outcome" where
  "sd_leave connect_to w =
     (if check_majority connect_to (wl_member_list w) (int (wl_member_list_entries w)) = 0
      then Abort else Return ())"

subsection \<open>The join event: fetching the VDI bitmap\<close>

text \<open>
  What a peer answers to \<open>SD_OP_READ_VDIS\<close>: the connection fails, \<open>exec_req\<close> fails,
  the response carries an error, or the peer sends its bitmap (the set of VDI ids in
  use).
\<close>

datatype vdi_reply = Connect_failed | Exec_failed | Rsp_failed | Vdi_bitmap "nat set"

text \<open>The values \<open>get_vdi_bitmap_from\<close> returns: 0, \<open>-SD_RES_EIO\<close>, or what \<open>exec_req\<close> returned.\<close>

datatype fetch_ret = Fetch_ret_success | Fetch_ret_neg_eio | Fetch_ret_exec

text \<open>
  The state of the join event's worker: the local node and status, the bitmap
  \<open>sys->vdi_inuse\<close>, and the peers \<open>connect_to\<close> has been called for, in order.
\<close>

record vdi_state =
  vs_this_node :: sd_node
  vs_status :: sd_status
  vdi_inuse :: "nat set"
  connected :: "sd_node list"

text \<open>
  \<open>is_myself\<close> (sheep_priv.h) compares an address and a port with those of the local node.
\<close>

definition is_myself :: "vdi_state \<Rightarrow> sd_node \<Rightarrow> bool" where
  "is_myself s n = (addr n = addr (vs_this_node s) \<and> port n = port (vs_this_node s))"

definition get_vdi_bitmap_from ::
  "(sd_node \<Rightarrow> vdi_reply) \<Rightarrow> sd_node \<Rightarrow> vdi_state \<Rightarrow> fetch_ret \<times> vdi_state" where
  "get_vdi_bitmap_from peer node s =
     (if is_myself s node then (Fetch_ret_success, s)
      else
        (let s1 = s\<lparr>connected := connected s @ [node]\<rparr>
         in case peer node of
              Connect_failed \<Rightarrow> (Fetch_ret_neg_eio, s1)
            | Exec_failed \<Rightarrow> (Fetch_ret_exec, s1)
            | Rsp_failed \<Rightarrow> (Fetch_ret_success, s1)
            | Vdi_bitmap b \<Rightarrow> (Fetch_ret_success, s1\<lparr>vdi_inuse := vdi_inuse s1 \<union> b\<rparr>)))"

text \<open>The loop of \<open>__sd_join\<close> over the members still to visit.\<close>

fun sd_join_loop :: "(sd_node \<Rightarrow> vdi_reply) \<Rightarrow> sd_node list \<Rightarrow> vdi_state \<Rightarrow> vdi_state" where
  "sd_join_loop peer [] s = s"
| "sd_join_loop peer (n # ns) s =
     (if node_eq n (vs_this_node s) then sd_join_loop peer ns s
      else
        (let s1 = snd (get_vdi_bitmap_from peer n s)
         in if vs_status s1 = SD_STATUS_WAIT_FOR_FORMAT then s1
            else sd_join_loop peer ns s1))"

record work_join =
  wj_member_list :: "sd_node list"
  wj_member_list_entries :: nat
  wj_joined :: sd_node
  wj_jm :: join_message

text \<open>\<open>__sd_join\<close>.\<close>

definition sd_join :: "(sd_node \<Rightarrow> vdi_reply) \<Rightarrow> work_join \<Rightarrow> vdi_state \<Rightarrow> vdi_state" where
  "sd_join peer w s =
     (if jm_cluster_status (wj_jm w) \<noteq> SD_STATUS_OK \<and>
         jm_cluster_status (wj_jm w) \<noteq> SD_STATUS_HALT then s
      else if vs_status s = SD_STATUS_OK then s
      else sd_join_loop peer (take (wj_member_list_entries w) (wj_member_list w)) s)"

subsection \<open>Event and request queues\<close>

datatype event_type = EVENT_JOIN | EVENT_LEAVE | EVENT_NOTIFY

text \<open>
  An event is the \<open>event_struct\<close> embedded in a \<open>work_join\<close>, \<open>work_leave\<close> or
  \<open>work_notify\<close>; \<open>ev_work\<close> names the containing work item.
\<close>

record event_struct =
  ctype :: event_type
  ev_work :: nat

text \<open>
  A client request, with what \<open>process_request_queue\<close> reads of it: the class of its
  operation (\<open>is_io_op\<close>, \<open>is_cluster_op\<close>, otherwise local) and the flag
  \<open>SD_FLAG_CMD_IO_LOCAL\<close>.
\<close>

datatype op_type = IO_OP | CLUSTER_OP | LOCAL_OP

record request =
  req_op :: op_type
  req_io_local :: bool
  req_id :: nat

text \<open>
  The queues and counters of \<open>sys\<close>, the static \<open>event_running\<close>, and the work handed to
  the work queues: \<open>event_wqueue\<close> holds the events whose work is queued and not yet
  done, that is, the events being executed; \<open>io_wqueue\<close>, \<open>gateway_wqueue\<close> and
  \<open>cluster_requests\<close> list the requests handed to the two work queues and to
  \<open>queue_cluster_request\<close>, in order.
\<close>

record queues =
  event_queue :: "event_struct list"
  request_queue :: "request list"
  outstanding_req_list :: "request list"
  nr_outstanding_io :: int
  cur_cevent :: "event_struct option"
  event_running :: bool
  event_wqueue :: "event_struct list"
  io_wqueue :: "request list"
  gateway_wqueue :: "request list"
  cluster_requests :: "request list"

text \<open>The state after \<open>create_cluster\<close> has initialised the lists.\<close>

definition queues_init :: queues where
  "queues_init =
     \<lparr> event_queue = [], request_queue = [], outstanding_req_list = [],
       nr_outstanding_io = 0, cur_cevent = None, event_running = False,
       event_wqueue = [], io_wqueue = [], gateway_wqueue = [], cluster_requests = [] \<rparr>"

text \<open>
  The body of the loop of \<open>process_request_queue\<close> for one request, after
  \<open>list_del\<close>.  The consistency-check flag it may set on the request is not part of the
  state; a cluster request is handed to \<open>queue_cluster_request\<close>.
\<close>

definition dispatch_request :: "request \<Rightarrow> queues \<Rightarrow> queues" where
  "dispatch_request req s =
     (case req_op req of
        IO_OP \<Rightarrow>
          (let s1 = s\<lparr>outstanding_req_list := outstanding_req_list s @ [req],
                       nr_outstanding_io := nr_outstanding_io s + 1\<rparr>
           in if req_io_local req then s1\<lparr>io_wqueue := io_wqueue s1 @ [req]\<rparr>
              else s1\<lparr>gateway_wqueue := gateway_wqueue s1 @ [req]\<rparr>)
      | CLUSTER_OP \<Rightarrow> s\<lparr>cluster_requests := cluster_requests s @ [req]\<rparr>
      | LOCAL_OP \<Rightarrow> s\<lparr>io_wqueue := io_wqueue s @ [req]\<rparr>)"

fun process_requests :: "request list \<Rightarrow> queues \<Rightarrow> queues" where
  "process_requests [] s = s"
| "process_requests (req # rest) s =
     process_requests rest (dispatch_request req (s\<lparr>request_queue := rest\<rparr>))"

definition process_request_queue :: "queues \<Rightarrow> queues" where
  "process_request_queue s = process_requests (request_queue s) s"

text \<open>
  \<open>process_event_queue\<close>; it is only called with a non-empty event queue.
\<close>

definition process_event_queue :: "queues \<Rightarrow> queues" where
  "process_event_queue s =
     (if event_running s \<or> nr_outstanding_io s \<noteq> 0 then s
      else
        (case event_queue s of
           [] \<Rightarrow> s
         | cevent # rest \<Rightarrow>
             s\<lparr>event_queue := rest, cur_cevent := Some cevent, event_running := True,
               event_wqueue := event_wqueue s @ [cevent]\<rparr>))"

definition process_request_event_queues :: "queues \<Rightarrow> queues" where
  "process_request_event_queues s =
     (if event_queue s \<noteq> [] then process_event_queue s else process_request_queue s)"

text \<open>
  \<open>event_done\<close>, the completion of the event work.  With no current event the function
  dereferences a null pointer: the result is \<open>None\<close>.  The done-handlers it calls
  (\<open>__sd_join_done\<close>, \<open>__sd_leave_done\<close>, \<open>__sd_notify_done\<close>) change none of the fields
  of \<open>queues\<close>.
\<close>

definition event_done :: "queues \<Rightarrow> queues option" where
  "event_done s =
     (case cur_cevent s of
        None \<Rightarrow> None
      | Some cevent \<Rightarrow>
          Some (process_request_event_queues
                  (s\<lparr>cur_cevent := None, event_running := False,
                     event_wqueue := tl (event_wqueue s)\<rparr>)))"

text \<open>
  How \<open>sd_notify_handler\<close>, \<open>sd_leave_handler\<close> and the \<open>CJ_RES_SUCCESS\<close> arm of
  \<open>sd_join_handler\<close> end: \<open>list_add_tail(&cevent->event_list, &sys->event_queue)\<close>,
  then \<open>process_request_event_queues()\<close>.
\<close>

definition queue_event :: "event_struct \<Rightarrow> queues \<Rightarrow> queues" where
  "queue_event cevent s =
     process_request_event_queues (s\<lparr>event_queue := event_queue s @ [cevent]\<rparr>)"

text \<open>
  Modelled from the spec: the callers of \<open>process_request_event_queues\<close> outside this
  file.  The dispatch rule is "evaluated whenever either counter changes or the queue is
  non-empty": a client request is appended to the request queue and the rule is
  evaluated; an outstanding I/O request completes, the I/O counter is decremented and
  the rule is evaluated.
\<close>

definition queue_request :: "request \<Rightarrow> queues \<Rightarrow> queues" where
  "queue_request req s =
     process_request_event_queues (s\<lparr>request_queue := request_queue s @ [req]\<rparr>)"

definition io_done :: "request \<Rightarrow> queues \<Rightarrow> queues" where
  "io_done req s =
     process_request_event_queues
       (s\<lparr>outstanding_req_list := remove1 req (outstanding_req_list s),
          nr_outstanding_io := nr_outstanding_io s - 1\<rparr>)"

text \<open>
  The states of the main thread.  Each caller changes the state and then calls
  \<open>process_request_event_queues\<close>: a handler appends an event to the event queue, the
  event work completes (the first part of \<open>event_done\<close>), a client request is appended
  to the request queue, an outstanding I/O request completes.  The states in which the
  function is called are reachable states, and so are the states it leaves.
\<close>

inductive reachable :: "queues \<Rightarrow> bool" where
  reach_init: "reachable queues_init"
| reach_add_event:
    "reachable s \<Longrightarrow> reachable (s\<lparr>event_queue := event_queue s @ [cevent]\<rparr>)"
| reach_event_complete:
    "reachable s \<Longrightarrow> cur_cevent s = Some cevent \<Longrightarrow>
     reachable (s\<lparr>cur_cevent := None, event_running := False,
                   event_wqueue := tl (event_wqueue s)\<rparr>)"
| reach_add_request:
    "reachable s \<Longrightarrow> reachable (s\<lparr>request_queue := request_queue s @ [req]\<rparr>)"
| reach_io_complete:
    "reachable s \<Longrightarrow> req \<in> set (outstanding_req_list s) \<Longrightarrow>
     reachable (s\<lparr>outstanding_req_list := remove1 req (outstanding_req_list s),
                   nr_outstanding_io := nr_outstanding_io s - 1\<rparr>)"
| reach_process: "reachable s \<Longrightarrow> reachable (process_request_event_queues s)"

section \<open>Notions of the specification and example data\<close>

text \<open>
  The zone count as the specification states it: the number of distinct zone values
  among the members with \<open>nr_vnodes > 0\<close>.
\<close>

definition spec_zones :: "sd_node list \<Rightarrow> u32 set" where
  "spec_zones members = zone ` {n \<in> set members. nr_vnodes n \<noteq> 0}"

definition spec_nr_zones :: "sd_node list \<Rightarrow> nat" where
  "spec_nr_zones members = card (spec_zones members)"

text \<open>A node on port 7000 with a one-byte address, a vnode count and a zone.\<close>

definition mk_node :: "nat \<Rightarrow> nat \<Rightarrow> nat \<Rightarrow> sd_node" where
  "mk_node a v z = \<lparr> addr = [of_nat a], port = 7000, nr_vnodes = of_nat v, zone = of_nat z \<rparr>"

text \<open>Nine storage nodes in nine zones.\<close>

definition nine_zones :: "sd_node list" where
  "nine_zones = [mk_node 1 64 1, mk_node 2 64 2, mk_node 3 64 3, mk_node 4 64 4, mk_node 5 64 5,
                 mk_node 6 64 6, mk_node 7 64 7, mk_node 8 64 8, mk_node 9 64 9]"

text \<open>
  The number of members of a leave event that answer the probe of \<open>check_majority\<close>.
\<close>

definition nr_reachable_of :: "(sd_node \<Rightarrow> bool) \<Rightarrow> work_leave \<Rightarrow> nat" where
  "nr_reachable_of connect_to w =
     length (filter connect_to (take (wl_member_list_entries w) (wl_member_list w)))"

text \<open>Leave events with three and with two remaining members.\<close>

definition three_members :: work_leave where
  "three_members = \<lparr> wl_member_list = [mk_node 1 64 1, mk_node 2 64 2, mk_node 3 64 3],
                      wl_member_list_entries = 3, wl_left = mk_node 4 64 4 \<rparr>"

definition two_members :: work_leave where
  "two_members = \<lparr> wl_member_list = [mk_node 1 64 1, mk_node 2 64 2],
                    wl_member_list_entries = 2, wl_left = mk_node 3 64 3 \<rparr>"

text \<open>A network in which only the nodes with addresses 1 and 2 accept a connection.\<close>

definition two_answer :: "sd_node \<Rightarrow> bool" where
  "two_answer n = (addr n = [1] \<or> addr n = [2])"

text \<open>
  A node restarted after a shutdown: its epoch log ends with epoch 5 and the members 1, 2
  and 3, it waits for them to join, and node 3 is in its leave-set.
\<close>

definition log5 :: "u32 \<Rightarrow> sd_node list option" where
  "log5 = Map.empty(5 \<mapsto> [mk_node 1 64 1, mk_node 2 64 2, mk_node 3 64 3])"

definition env5 :: env where
  "env5 = \<lparr> SD_SHEEP_PROTO_VER = 2, latest_epoch = 5, cluster_ctime = 1000,
             epoch_log = log5, sd_store = None, epoch_log_calls = [] \<rparr>"

definition sys_wait :: cluster_info where
  "sys_wait = \<lparr> this_node = mk_node 1 64 1, sys_epoch = 5, sys_status = SD_STATUS_WAIT_FOR_JOIN,
                 sys_flags = 0, sys_nr_copies = 3, sys_nodes = [mk_node 1 64 1],
                 leave_list = [mk_node 3 64 3], join_finished = True \<rparr>"

text \<open>
  The join message of a node with protocol version \<open>ver\<close> whose epoch log ends with
  epoch \<open>ep\<close> and the members \<open>ns\<close>, for the cluster created at time 1000.
\<close>

definition jm_of :: "nat \<Rightarrow> nat \<Rightarrow> sd_node list \<Rightarrow> join_message" where
  "jm_of ver ep ns =
     \<lparr> jm_proto_ver = of_nat ver, jm_nr_copies = 3, jm_nr_nodes = of_nat (length ns),
       jm_nr_leave_nodes = 0, jm_cluster_flags = 0, jm_cluster_status = SD_STATUS_WAIT_FOR_JOIN,
       jm_epoch = of_nat ep, jm_ctime = 1000, jm_result = SD_RES_SUCCESS, jm_inc_epoch = 0,
       jm_store = [], jm_nodes = ns \<rparr>"




text \<open>
  The peers of a join event (the delivered members other than the local node, in list
  order) and a successful fetch (the peer sends its bitmap).
\<close>

definition peers_of :: "vdi_state \<Rightarrow> work_join \<Rightarrow> sd_node list" where
  "peers_of s w =
     filter (\<lambda>n. \<not> node_eq n (vs_this_node s)) (take (wj_member_list_entries w) (wj_member_list w))"

definition fetch_ok :: "(sd_node \<Rightarrow> vdi_reply) \<Rightarrow> sd_node \<Rightarrow> bool" where
  "fetch_ok peer n = (case peer n of Vdi_bitmap b \<Rightarrow> True | _ \<Rightarrow> False)"

text \<open>
  A freshly created node 1 (status WaitFormat, no VDI known) and the join event that
  delivers the members 1, 2 and 3 of a running cluster.
\<close>

definition fresh_state :: vdi_state where
  "fresh_state = \<lparr> vs_this_node = mk_node 1 64 1, vs_status = SD_STATUS_WAIT_FOR_FORMAT,
                    vdi_inuse = {}, connected = [] \<rparr>"

definition join_of_three :: work_join where
  "join_of_three =
     \<lparr> wj_member_list = [mk_node 1 64 1, mk_node 2 64 2, mk_node 3 64 3],
       wj_member_list_entries = 3, wj_joined = mk_node 1 64 1,
       wj_jm = (jm_of 2 5 [])\<lparr>jm_cluster_status := SD_STATUS_OK\<rparr> \<rparr>"

text \<open>
  A network in which node 2 refuses the connection and every other node sends the
  bitmap with VDI 7, and one in which every node sends it.
\<close>

definition node2_down :: "sd_node \<Rightarrow> vdi_reply" where
  "node2_down n = (if addr n = [2] then Connect_failed else Vdi_bitmap {7})"

definition all_up :: "sd_node \<Rightarrow> vdi_reply" where
  "all_up n = Vdi_bitmap {7}"

text \<open>A notify event and a client read that goes through the gateway.\<close>

definition ev1 :: event_struct where
  "ev1 = \<lparr>ctype = EVENT_NOTIFY, ev_work = 1\<rparr>"

definition io1 :: request where
  "io1 = \<lparr>req_op = IO_OP, req_io_local = False, req_id = 1\<rparr>"

text \<open>
  The invariant of the event serializer: at most one event work is queued and not done,
  and \<open>event_running\<close> and \<open>cur_cevent\<close> say whether there is one.
\<close>

definition serial_inv :: "queues \<Rightarrow> bool" where
  "serial_inv s =
     (length (event_wqueue s) \<le> 1 \<and> (event_running s = (event_wqueue s \<noteq> [])) \<and>
      (event_running s = (cur_cevent s \<noteq> None)))"

text \<open>A snapshot of two zones, and one with a negative zone count (which is never built).\<close>

definition two_zone_snapshot :: "nat vnode_info" where
  "two_zone_snapshot = \<lparr> vi_entries = [], vi_nr_vnodes = 0, nr_zones = 2, refcnt = 1 \<rparr>"

definition negative_snapshot :: "nat vnode_info" where
  "negative_snapshot = \<lparr> vi_entries = [], vi_nr_vnodes = 0, nr_zones = - 1, refcnt = 1 \<rparr>"

text \<open>
  The idle node to which a notify event has just been delivered, and the node with one
  I/O outstanding to which it has just been delivered: two states in which
  \<open>sd_notify_handler\<close> calls \<open>process_request_event_queues\<close>.
\<close>

definition idle_delivered :: queues where
  "idle_delivered = queues_init\<lparr>event_queue := [ev1]\<rparr>"

definition busy_delivered :: queues where
  "busy_delivered = (queue_request io1 queues_init)\<lparr>event_queue := [ev1]\<rparr>"

section \<open>Theorems\<close>

subsection \<open>Zone count\<close>

lemma zones_scan_le: "zones_scan z zs \<le> length zs"
  by (induction zs) auto

lemma zones_scan_miss: "(zones_scan z zs = length zs) = (z \<notin> set zs)"
proof (induction zs)
  case Nil
  show ?case by simp
next
  case (Cons y ys)
  have "zones_scan z ys \<le> length ys" by (rule zones_scan_le)
  with Cons show ?case by auto
qed

lemma spec_zones_Nil: "spec_zones [] = {}"
  by (simp add: spec_zones_def)

lemma spec_zones_Cons:
  "spec_zones (m # ms) =
     (if nr_vnodes m = 0 then spec_zones ms else insert (zone m) (spec_zones ms))"
  by (auto simp: spec_zones_def)

lemma finite_spec_zones: "finite (spec_zones ms)"
  by (simp add: spec_zones_def)

lemma spec_zones_filter: "spec_zones ms = set (map zone (filter (\<lambda>n. nr_vnodes n \<noteq> 0) ms))"
  by (induction ms) (simp_all add: spec_zones_Nil spec_zones_Cons)

lemma spec_nr_zones_remdups:
  "spec_nr_zones ms = length (remdups (map zone (filter (\<lambda>n. nr_vnodes n \<noteq> 0) ms)))"
  by (simp only: spec_nr_zones_def spec_zones_filter length_remdups_card_conv)

lemma get_zones_loop_card:
  "distinct zones \<Longrightarrow> length zones < R \<Longrightarrow>
   get_zones_loop R ns zones = min R (card (set zones \<union> spec_zones ns))"
proof (induction ns arbitrary: zones)
  case Nil
  then show ?case by (simp add: distinct_card spec_zones_Nil)
next
  case (Cons n ns)
  show ?case
  proof (cases "nr_vnodes n = 0")
    case True
    with Cons show ?thesis by (simp add: spec_zones_Cons)
  next
    case False
    note nz = this
    show ?thesis
    proof (cases "zone n \<in> set zones")
      case True
      then have "set zones \<union> spec_zones (n # ns) = set zones \<union> spec_zones ns"
        using nz by (auto simp: spec_zones_Cons)
      with Cons True nz show ?thesis by (simp add: zones_scan_miss)
    next
      case False
      note fresh = this
      have eq: "set zones \<union> spec_zones (n # ns) = set (zones @ [zone n]) \<union> spec_zones ns"
        using nz by (auto simp: spec_zones_Cons)
      show ?thesis
      proof (cases "Suc (length zones) = R")
        case True
        have "card (set (zones @ [zone n])) = Suc (length zones)"
          using fresh Cons.prems(1) by (simp add: distinct_card)
        moreover have "card (set (zones @ [zone n])) \<le> card (set (zones @ [zone n]) \<union> spec_zones ns)"
          by (rule card_mono) (auto simp: finite_spec_zones)
        ultimately have "R \<le> card (set zones \<union> spec_zones (n # ns))"
          using True eq by simp
        with True fresh nz show ?thesis by (simp add: zones_scan_miss)
      next
        case False
        have d: "distinct (zones @ [zone n])" using fresh Cons.prems(1) by simp
        have l: "length (zones @ [zone n]) < R" using False Cons.prems(2) by simp
        from Cons.IH [OF d l] eq False fresh nz show ?thesis
          by (simp add: zones_scan_miss)
      qed
    qed
  qed
qed

lemma get_zones_nr_from_min:
  assumes "0 < max_red"
  shows "get_zones_nr_from max_red nodes nr_nodes =
           int (min max_red (spec_nr_zones (take (nat nr_nodes) nodes)))"
  using get_zones_loop_card [of "[]" max_red "take (nat nr_nodes) nodes"] assms
  by (simp add: get_zones_nr_from_def spec_nr_zones_def)

text \<open>
  Whatever the size of the array \<open>zones\<close> is, one storage node per zone in one zone
  more than the array holds is counted as a full array.
\<close>

lemma spec_zones_storage:
  "spec_zones (map (\<lambda>i. mk_node i 64 i) is) = (word_of_nat :: nat \<Rightarrow> u32) ` set is"
  by (induction "is") (simp_all add: spec_zones_Nil spec_zones_Cons mk_node_def)

lemma one_zone_too_many:
  assumes "0 < max_red" and "max_red < 2 ^ 32"
  shows "get_zones_nr_from max_red (map (\<lambda>i. mk_node i 64 i) [0..<Suc max_red])
           (int (Suc max_red)) = int max_red
       \<and> spec_nr_zones (map (\<lambda>i. mk_node i 64 i) [0..<Suc max_red]) = Suc max_red"
proof -
  let ?ns = "map (\<lambda>i. mk_node i 64 i) [0..<Suc max_red]"
  have sub: "{0..<Suc max_red} \<subseteq> {0..<2 ^ LENGTH(32)}"
    using assms(2) by auto
  have inj: "inj_on (word_of_nat :: nat \<Rightarrow> u32) {0..<Suc max_red}"
    by (rule inj_on_subset [OF inj_on_word_of_nat sub])
  have "spec_zones ?ns = (word_of_nat :: nat \<Rightarrow> u32) ` {0..<Suc max_red}"
    by (simp only: spec_zones_storage set_upt)
  then have c: "spec_nr_zones ?ns = Suc max_red"
    using card_image [OF inj] by (simp add: spec_nr_zones_def)
  have "take (nat (int (Suc max_red))) ?ns = ?ns" by simp
  with get_zones_nr_from_min [OF assms(1), of ?ns "int (Suc max_red)"] c
  show ?thesis by (simp del: upt_Suc map_append)
qed

text \<open>The snapshot \<open>update_vnode_info\<close> publishes carries that count.\<close>

lemma update_vnode_info_nr_zones:
  "0 < max_red \<Longrightarrow> update_vnode_info max_red n2v True ns nr cur = (r, Some vi) \<Longrightarrow>
   nr_zones vi = int (min max_red (spec_nr_zones (take (nat nr) ns)))"
  using get_zones_nr_from_min [of max_red ns nr]
  by (auto simp: update_vnode_info_def)

text \<open>
  Claim C2, as the code has it: \<open>get_zones_nr_from\<close> stops counting when the array
  \<open>zones\<close> is full.  For every member list and every \<open>nr_nodes\<close>, the result is the
  number of distinct zones among the first \<open>nr_nodes\<close> members with \<open>nr_vnodes > 0\<close>,
  capped at \<open>SD_MAX_REDUNDANCY\<close>; when all of them are pure gateways it is 0.
\<close>

theorem get_zones_nr_from_capped:
  assumes "0 < max_red"
  shows "get_zones_nr_from max_red nodes nr_nodes =
           int (min max_red (spec_nr_zones (take (nat nr_nodes) nodes)))
         \<and> ((\<forall>n \<in> set (take (nat nr_nodes) nodes). nr_vnodes n = 0) \<longrightarrow>
              get_zones_nr_from max_red nodes nr_nodes = 0)"
proof -
  have "(\<forall>n \<in> set (take (nat nr_nodes) nodes). nr_vnodes n = 0) \<longrightarrow>
          spec_zones (take (nat nr_nodes) nodes) = {}"
    by (auto simp: spec_zones_def)
  then show ?thesis
    using get_zones_nr_from_min [OF assms, of nodes nr_nodes] by (auto simp: spec_nr_zones_def)
qed

lemma nine_zones_scan: "get_zones_nr_from 8 nine_zones 9 = 8"
  by (simp add: get_zones_nr_from_def nine_zones_def mk_node_def)

lemma nine_zones_spec: "spec_nr_zones nine_zones = 9"
  by (simp add: spec_nr_zones_remdups nine_zones_def mk_node_def)

text \<open>
  Nine storage nodes in nine zones, with room for eight zones in the array: the function
  returns 8 where the members span 9 distinct zones.
\<close>

theorem get_zones_nr_from_counterexample:
  "get_zones_nr_from 8 nine_zones (int (length nine_zones)) = 8 \<and> spec_nr_zones nine_zones = 9"
  using nine_zones_scan nine_zones_spec by (simp add: nine_zones_def)

text \<open>
  With room for two zones: two storage nodes of zone 5 and a gateway of zone 6 count one
  zone, two gateways count none.
\<close>

theorem get_zones_nr_from_capped_witness:
  "(0::nat) < 2 \<and> get_zones_nr_from 2 [mk_node 1 64 5, mk_node 2 0 6, mk_node 3 64 5] 3 = 1
   \<and> get_zones_nr_from 2 [mk_node 1 0 5, mk_node 2 0 6] 2 = 0"
proof -
  have h: "(0::nat) < 2" by simp
  have z: "spec_nr_zones [mk_node 1 64 5, mk_node 2 0 6, mk_node 3 64 5] = 1"
    by (simp add: spec_nr_zones_remdups mk_node_def)
  have g: "\<forall>n \<in> set (take (nat 2) [mk_node 1 0 5, mk_node 2 0 6]). nr_vnodes n = 0"
    by (simp add: mk_node_def)
  from get_zones_nr_from_capped [OF h, of "[mk_node 1 64 5, mk_node 2 0 6, mk_node 3 64 5]" 3]
       get_zones_nr_from_capped [OF h, of "[mk_node 1 0 5, mk_node 2 0 6]" 2] z g
  show ?thesis by simp
qed

subsection \<open>Replication degree\<close>

lemma min_macro_min: "min_macro x y = min x y"
  by (simp add: min_macro_def min_def)

lemma to_uint32_id: "0 \<le> x \<Longrightarrow> x < 2 ^ 31 \<Longrightarrow> to_uint32 x = x"
  by (simp add: to_uint32_def)

lemma to_int32_id: "0 \<le> x \<Longrightarrow> x < 2 ^ 31 \<Longrightarrow> to_int32 x = x"
  by (simp add: to_int32_def)

lemma get_nr_copies_min:
  assumes "0 \<le> nr_zones vi" and "nr_zones vi < 2 ^ 31"
  shows "get_nr_copies c vi = min (uint c) (nr_zones vi)"
proof -
  let ?m = "min (nr_zones vi) (uint c)"
  have "0 \<le> uint c" by simp
  with assms have "0 \<le> ?m" and "?m < 2 ^ 31" by (simp_all add: min_def)
  then have "to_int32 ?m = ?m" by (rule to_int32_id)
  then show ?thesis
    using assms by (simp add: get_nr_copies_def min_macro_min to_uint32_id min.commute)
qed

lemma get_max_nr_copies_from_min:
  assumes "0 < max_red" and "uint c < 2 ^ 31"
  shows "get_max_nr_copies_from max_red c nodes nr =
           min (uint c) (int (min max_red (spec_nr_zones (take (nat nr) nodes))))"
proof -
  have "to_int32 (uint c) = uint c"
    using assms(2) by (simp add: to_int32_id)
  then show ?thesis
    by (simp add: get_max_nr_copies_from_def min_macro_min get_zones_nr_from_min [OF assms(1)])
qed

text \<open>
  With a negative \<open>nr_zones\<close> the comparison is made on the unsigned values and the
  function returns \<open>nr_copies\<close>.
\<close>

lemma get_nr_copies_negative: "get_nr_copies 3 negative_snapshot = 3"
  by (simp add: get_nr_copies_def negative_snapshot_def to_uint32_def to_int32_def min_macro_def)

text \<open>
  Claim C3, as the code has it: the zone count is capped at \<open>SD_MAX_REDUNDANCY\<close>, and
  \<open>get_nr_copies\<close> compares unsigned values.  For every snapshot \<open>vi\<close> whose
  \<open>nr_zones\<close> is not negative, \<open>get_nr_copies\<close> is the minimum of the configured
  \<open>nr_copies\<close> and \<open>vi.nr_zones\<close>; for every node list (and a configured \<open>nr_copies\<close>
  that fits an \<open>int\<close>), \<open>get_max_nr_copies_from\<close> is the minimum of the configured
  \<open>nr_copies\<close>, of \<open>SD_MAX_REDUNDANCY\<close> and of the number of distinct zones among the
  nodes with \<open>nr_vnodes > 0\<close>; and for the snapshot \<open>update_vnode_info\<close> builds from a
  node list, \<open>get_nr_copies\<close> is that same minimum.
\<close>

theorem nr_copies_capped:
  "(0 \<le> nr_zones vi \<and> nr_zones vi < 2 ^ 31 \<longrightarrow>
      get_nr_copies c vi = min (uint c) (nr_zones vi))
   \<and> (0 < max_red \<and> uint c < 2 ^ 31 \<longrightarrow>
      get_max_nr_copies_from max_red c nodes nr =
        min (uint c) (int (min max_red (spec_nr_zones (take (nat nr) nodes)))))
   \<and> (0 < max_red \<and> max_red < 2 ^ 31 \<and>
      update_vnode_info max_red n2v True ns nr' cur = (r, Some vi') \<longrightarrow>
      get_nr_copies c vi' =
        min (uint c) (int (min max_red (spec_nr_zones (take (nat nr') ns)))))"
proof -
  have third: "get_nr_copies c vi' =
        min (uint c) (int (min max_red (spec_nr_zones (take (nat nr') ns))))"
    if h: "0 < max_red \<and> max_red < 2 ^ 31 \<and>
      update_vnode_info max_red n2v True ns nr' cur = (r, Some vi')"
  proof -
    from h have z: "nr_zones vi' = int (min max_red (spec_nr_zones (take (nat nr') ns)))"
      using update_vnode_info_nr_zones [of max_red n2v ns nr' cur r vi'] by simp
    have "int (min max_red (spec_nr_zones (take (nat nr') ns))) \<le> int max_red" by simp
    also have "\<dots> < 2 ^ 31" using h by simp
    finally have "nr_zones vi' < 2 ^ 31" using z by simp
    moreover have "0 \<le> nr_zones vi'" using z by simp
    ultimately show ?thesis using get_nr_copies_min [of vi' c] z by simp
  qed
  from get_nr_copies_min [of vi c] get_max_nr_copies_from_min [of max_red c nodes nr] third
  show ?thesis by blast
qed

text \<open>
  Three copies configured: a snapshot of two zones gives 2, and the nine storage nodes in
  nine zones give 3 with room for eight zones.
\<close>

theorem nr_copies_capped_witness:
  "get_nr_copies 3 two_zone_snapshot = 2 \<and> get_max_nr_copies_from 8 3 nine_zones 9 = 3"
proof -
  have a: "0 \<le> nr_zones two_zone_snapshot \<and> nr_zones two_zone_snapshot < 2 ^ 31"
    by (simp add: two_zone_snapshot_def)
  have b: "(0::nat) < 8 \<and> uint (3 :: u32) < 2 ^ 31" by simp
  have z: "nr_zones two_zone_snapshot = 2" by (simp add: two_zone_snapshot_def)
  have n: "take (nat 9) nine_zones = nine_zones" by (simp add: nine_zones_def)
  from nr_copies_capped [where vi = two_zone_snapshot and c = 3 and max_red = 8
      and nodes = nine_zones and nr = 9 and ?n2v = "\<lambda>ns. []" and ns = "[]" and nr' = 0
      and cur = None and r = 0 and vi' = two_zone_snapshot] a b z n nine_zones_spec
  show ?thesis by simp
qed

text \<open>
  Nine copies configured and nine storage nodes in nine zones, with room for eight zones
  in the array: the minimum of the configured \<open>nr_copies\<close> and the number of zones of
  the node list is 9, and \<open>get_max_nr_copies_from\<close> returns 8.
\<close>

theorem nr_copies_counterexample:
  "get_max_nr_copies_from 8 9 nine_zones (int (length nine_zones)) = 8
   \<and> min (uint (9 :: u32)) (int (spec_nr_zones nine_zones)) = 9"
proof -
  have "get_max_nr_copies_from 8 9 nine_zones 9 = 8"
    using nine_zones_scan
    by (simp add: get_max_nr_copies_from_def min_macro_def to_int32_def)
  then show ?thesis using nine_zones_spec by (simp add: nine_zones_def)
qed

subsection \<open>Majority check of the leave event\<close>

lemma majority_loop_count:
  "r < m \<Longrightarrow>
   majority_loop c m ns r = (if m \<le> r + int (length (filter c ns)) then 1 else 0)"
  by (induction ns arbitrary: r) auto

lemma check_majority_count:
  "check_majority c nodes nr =
     (if nr < 3 \<or> nr div 2 + 1 \<le> int (length (filter c (take (nat nr) nodes))) then 1 else 0)"
proof (cases "nr < 3")
  case True
  then show ?thesis by (simp add: check_majority_def)
next
  case False
  then have "0 < nr div 2 + 1" by simp
  from majority_loop_count [OF this, of c "take (nat nr) nodes"] False
  show ?thesis by (simp add: check_majority_def)
qed

text \<open>
  Claim C4, as the code has it: the majority is \<open>nr / 2 + 1\<close> in integer division,
  that is \<open>\<lfloor>nr/2\<rfloor> + 1\<close>.  For every remaining-member list of size \<open>nr\<close> the leave
  handler aborts exactly when \<open>nr \<ge> 3\<close> and fewer than \<open>\<lfloor>nr/2\<rfloor> + 1\<close> members are
  reachable; when \<open>nr < 3\<close>, \<open>check_majority\<close> returns 1 whatever is reachable and the
  handler does not abort.
\<close>

theorem sd_leave_majority:
  "(sd_leave connect_to w = Abort) =
     (3 \<le> wl_member_list_entries w \<and>
      nr_reachable_of connect_to w < wl_member_list_entries w div 2 + 1)
   \<and> (wl_member_list_entries w < 3 \<longrightarrow>
        check_majority connect_to (wl_member_list w) (int (wl_member_list_entries w)) = 1 \<and>
        sd_leave connect_to w = Return ())"
proof -
  have d: "int (wl_member_list_entries w) div 2 = int (wl_member_list_entries w div 2)"
    by (simp add: zdiv_int)
  show ?thesis
    unfolding sd_leave_def check_majority_count nr_reachable_of_def d
    by auto
qed

text \<open>
  With two members and nobody reachable the handler returns; with three members and
  nobody reachable it aborts.
\<close>

theorem sd_leave_majority_witness:
  "wl_member_list_entries two_members < 3 \<and>
   sd_leave (\<lambda>n. False) two_members = Return () \<and>
   sd_leave (\<lambda>n. False) three_members = Abort"
  using sd_leave_majority [of "\<lambda>n. False" two_members]
    sd_leave_majority [of "\<lambda>n. False" three_members]
  by (simp add: two_members_def three_members_def nr_reachable_of_def)

text \<open>
  Three remaining members of which two are reachable: 2 is fewer than
  \<open>\<lceil>3/2\<rceil> + 1 = 3\<close>, and the handler does not abort.
\<close>

theorem sd_leave_counterexample:
  "3 \<le> wl_member_list_entries three_members \<and>
   nr_reachable_of two_answer three_members = 2 \<and>
   nr_reachable_of two_answer three_members
     < (wl_member_list_entries three_members + 1) div 2 + 1 \<and>
   sd_leave two_answer three_members = Return ()"
  by (simp add: three_members_def nr_reachable_of_def two_answer_def mk_node_def sd_leave_def
        check_majority_def)

subsection \<open>Join admission\<close>

lemmas sys_stat_defs =
  sys_stat_ok_def sys_stat_wait_format_def sys_stat_wait_join_def sys_stat_shutdown_def
  sys_can_recover_def

lemma get_cluster_status_fresh:
  "fst (get_cluster_status e sys frm entries 0 ctime epoch) = SD_RES_SUCCESS \<or>
   fst (get_cluster_status e sys frm entries 0 ctime epoch) = SD_RES_SHUTDOWN"
  by (cases "sys_status sys")
    (simp_all add: get_cluster_status_def cluster_sanity_check_def Let_def)

lemma get_cluster_status_fail_status:
  "fst (get_cluster_status e sys frm entries nr ctime epoch) \<noteq> SD_RES_SUCCESS \<Longrightarrow>
   fst (snd (get_cluster_status e sys frm entries nr ctime epoch)) = sys_status sys"
  by (cases "sys_status sys") (auto simp: get_cluster_status_def Let_def split: if_splits)

text \<open>
  What \<open>sd_check_join_cb\<close> returns for a peer whose protocol version matches, from the
  result of \<open>get_cluster_status\<close>.
\<close>

lemma sd_check_join_cb_peer:
  assumes "jm_proto_ver jm = SD_SHEEP_PROTO_VER e" and "\<not> node_eq joining (this_node sys)"
    and "get_cluster_status e sys joining (jm_nodes jm) (uint (jm_nr_nodes jm))
           (jm_ctime jm) (jm_epoch jm) = (ret, st, inc)"
  shows "jm_result (fst (snd (sd_check_join_cb e sys joining jm))) = ret"
    and "fst (sd_check_join_cb e sys joining jm) =
          (if ret = SD_RES_SUCCESS then CJ_RES_SUCCESS
           else if jm_epoch jm > sys_epoch sys \<and> sys_status sys = SD_STATUS_WAIT_FOR_JOIN
           then CJ_RES_MASTER_TRANSFER
           else if ret = SD_RES_OLD_NODE_VER \<or> ret = SD_RES_NEW_NODE_VER then CJ_RES_JOIN_LATER
           else CJ_RES_FAIL)"
proof -
  have st: "ret \<noteq> SD_RES_SUCCESS \<Longrightarrow> st = sys_status sys"
    using get_cluster_status_fail_status [of e sys joining "jm_nodes jm" "uint (jm_nr_nodes jm)"
        "jm_ctime jm" "jm_epoch jm"] assms(3) by simp
  show "jm_result (fst (snd (sd_check_join_cb e sys joining jm))) = ret"
    using assms by (simp add: sd_check_join_cb_def Let_def)
  show "fst (sd_check_join_cb e sys joining jm) =
          (if ret = SD_RES_SUCCESS then CJ_RES_SUCCESS
           else if jm_epoch jm > sys_epoch sys \<and> sys_status sys = SD_STATUS_WAIT_FOR_JOIN
           then CJ_RES_MASTER_TRANSFER
           else if ret = SD_RES_OLD_NODE_VER \<or> ret = SD_RES_NEW_NODE_VER then CJ_RES_JOIN_LATER
           else CJ_RES_FAIL)"
    using assms st by (cases ret) (auto simp: sd_check_join_cb_def Let_def)
qed

lemma sd_check_join_cb_self:
  "jm_proto_ver jm = SD_SHEEP_PROTO_VER e \<Longrightarrow> node_eq joining (this_node sys) \<Longrightarrow>
   fst (sd_check_join_cb e sys joining jm) = CJ_RES_SUCCESS"
  by (simp add: sd_check_join_cb_def Let_def split: prod.splits)

lemma sd_check_join_cb_ver:
  "jm_proto_ver jm \<noteq> SD_SHEEP_PROTO_VER e \<Longrightarrow>
   sd_check_join_cb e sys joining jm = (CJ_RES_FAIL, jm\<lparr>jm_result := SD_RES_VER_MISMATCH\<rparr>, sys)"
  by (simp add: sd_check_join_cb_def)

text \<open>
  Claim C10: \<open>cluster_sanity_check\<close> returns Success, whatever the ctime, the epoch, the
  member list and the epoch log are, whenever the candidate's node list is empty
  (\<open>nr_entries == 0\<close>) or the local status is WaitFormat or Shutdown; and for a freshly
  created node (\<open>nr_entries == 0\<close>) \<open>get_cluster_status\<close> never answers InvalidCTime,
  OldNodeVer, NewNodeVer or InvalidEpoch, nor does \<open>sd_check_join_cb\<close> store one of
  them as the result of a peer's join message with \<open>nr_nodes == 0\<close>.
\<close>

theorem cluster_sanity_check_skipped:
  "(nr_entries = 0 \<or> sys_status sys = SD_STATUS_WAIT_FOR_FORMAT \<or>
    sys_status sys = SD_STATUS_SHUTDOWN
      \<longrightarrow> cluster_sanity_check e sys entries nr_entries ctime epoch = SD_RES_SUCCESS)
   \<and> fst (get_cluster_status e sys frm entries 0 ctime epoch)
        \<notin> {SD_RES_INVALID_CTIME, SD_RES_OLD_NODE_VER, SD_RES_NEW_NODE_VER, SD_RES_INVALID_EPOCH}
   \<and> (jm_nr_nodes jm = 0 \<and> \<not> node_eq joining (this_node sys) \<longrightarrow>
        jm_result (fst (snd (sd_check_join_cb e sys joining jm)))
          \<notin> {SD_RES_INVALID_CTIME, SD_RES_OLD_NODE_VER, SD_RES_NEW_NODE_VER, SD_RES_INVALID_EPOCH})"
proof -
  have a: "nr_entries = 0 \<or> sys_status sys = SD_STATUS_WAIT_FOR_FORMAT \<or>
    sys_status sys = SD_STATUS_SHUTDOWN
      \<longrightarrow> cluster_sanity_check e sys entries nr_entries ctime epoch = SD_RES_SUCCESS"
    by (auto simp: cluster_sanity_check_def sys_stat_defs)
  have b: "fst (get_cluster_status e sys frm entries 0 ctime epoch)
        \<notin> {SD_RES_INVALID_CTIME, SD_RES_OLD_NODE_VER, SD_RES_NEW_NODE_VER, SD_RES_INVALID_EPOCH}"
    using get_cluster_status_fresh [of e sys frm entries ctime epoch] by auto
  have c: "jm_result (fst (snd (sd_check_join_cb e sys joining jm)))
          \<notin> {SD_RES_INVALID_CTIME, SD_RES_OLD_NODE_VER, SD_RES_NEW_NODE_VER, SD_RES_INVALID_EPOCH}"
    if h: "jm_nr_nodes jm = 0 \<and> \<not> node_eq joining (this_node sys)"
  proof (cases "jm_proto_ver jm = SD_SHEEP_PROTO_VER e")
    case False
    then show ?thesis by (simp add: sd_check_join_cb_ver)
  next
    case True
    obtain ret st inc where g: "get_cluster_status e sys joining (jm_nodes jm)
        (uint (jm_nr_nodes jm)) (jm_ctime jm) (jm_epoch jm) = (ret, st, inc)"
      by (cases "get_cluster_status e sys joining (jm_nodes jm)
        (uint (jm_nr_nodes jm)) (jm_ctime jm) (jm_epoch jm)") auto
    from h have p: "\<not> node_eq joining (this_node sys)" by simp
    from g h have "ret = SD_RES_SUCCESS \<or> ret = SD_RES_SHUTDOWN"
      using get_cluster_status_fresh [of e sys joining "jm_nodes jm" "jm_ctime jm" "jm_epoch jm"]
      by simp
    with sd_check_join_cb_peer(1) [OF True p g] show ?thesis by auto
  qed
  from a b c show ?thesis by blast
qed

text \<open>
  An empty node list with a foreign ctime and epoch passes in WaitJoin, a non-empty one
  passes in Shutdown, and the same non-empty list is rejected in WaitJoin.
\<close>

theorem cluster_sanity_check_skipped_witness:
  "cluster_sanity_check env5 sys_wait [] 0 77 9 = SD_RES_SUCCESS
   \<and> cluster_sanity_check env5 (sys_wait\<lparr>sys_status := SD_STATUS_SHUTDOWN\<rparr>)
        [mk_node 4 64 4] 1 77 9 = SD_RES_SUCCESS
   \<and> cluster_sanity_check env5 sys_wait [mk_node 4 64 4] 1 77 9 = SD_RES_INVALID_CTIME"
proof -
  have "cluster_sanity_check env5 sys_wait [] 0 77 9 = SD_RES_SUCCESS"
    using cluster_sanity_check_skipped [of 0 sys_wait env5 "[]" 77 9] by simp
  moreover have "cluster_sanity_check env5 (sys_wait\<lparr>sys_status := SD_STATUS_SHUTDOWN\<rparr>)
        [mk_node 4 64 4] 1 77 9 = SD_RES_SUCCESS"
    using cluster_sanity_check_skipped [of 1 "sys_wait\<lparr>sys_status := SD_STATUS_SHUTDOWN\<rparr>" env5
        "[mk_node 4 64 4]" 77 9] by simp
  moreover have "cluster_sanity_check env5 sys_wait [mk_node 4 64 4] 1 77 9 = SD_RES_INVALID_CTIME"
    by (simp add: cluster_sanity_check_def sys_stat_defs sys_wait_def env5_def)
  ultimately show ?thesis by simp
qed

text \<open>
  Claim C6, as the code has it: the protocol version is checked first, and a message
  with another version is answered Fail before anything else is looked at.
  \<open>sd_check_join_cb\<close> returns MasterTransfer exactly when the protocol version matches,
  the candidate is not the local node, the result stored in the message is a failure,
  the candidate's epoch in the join message is strictly greater than \<open>sys->epoch\<close>, and
  the local status is WaitJoin; in every other failure case of a peer it returns Fail or
  JoinLater.
\<close>

theorem master_transfer_iff:
  "(fst (sd_check_join_cb e sys joining jm) = CJ_RES_MASTER_TRANSFER) =
     (jm_proto_ver jm = SD_SHEEP_PROTO_VER e \<and> \<not> node_eq joining (this_node sys) \<and>
      jm_result (fst (snd (sd_check_join_cb e sys joining jm))) \<noteq> SD_RES_SUCCESS \<and>
      jm_epoch jm > sys_epoch sys \<and> sys_status sys = SD_STATUS_WAIT_FOR_JOIN)
   \<and> (\<not> node_eq joining (this_node sys) \<and>
      jm_result (fst (snd (sd_check_join_cb e sys joining jm))) \<noteq> SD_RES_SUCCESS \<and>
      fst (sd_check_join_cb e sys joining jm) \<noteq> CJ_RES_MASTER_TRANSFER
      \<longrightarrow> fst (sd_check_join_cb e sys joining jm) = CJ_RES_FAIL \<or>
          fst (sd_check_join_cb e sys joining jm) = CJ_RES_JOIN_LATER)"
proof (cases "jm_proto_ver jm = SD_SHEEP_PROTO_VER e")
  case False
  then show ?thesis by (simp add: sd_check_join_cb_ver)
next
  case True
  note ver = this
  show ?thesis
  proof (cases "node_eq joining (this_node sys)")
    case True
    with ver show ?thesis by (simp add: sd_check_join_cb_self)
  next
    case False
    obtain ret st inc where g: "get_cluster_status e sys joining (jm_nodes jm)
        (uint (jm_nr_nodes jm)) (jm_ctime jm) (jm_epoch jm) = (ret, st, inc)"
      by (cases "get_cluster_status e sys joining (jm_nodes jm)
        (uint (jm_nr_nodes jm)) (jm_ctime jm) (jm_epoch jm)") auto
    show ?thesis
      using ver False sd_check_join_cb_peer [OF ver False g] by auto
  qed
qed

text \<open>
  Node 2 joins the waiting node 1 with epoch 6 and another member list: the answer is
  MasterTransfer.  With epoch 3 the failure is answered JoinLater.
\<close>

theorem master_transfer_iff_witness:
  "fst (sd_check_join_cb env5 sys_wait (mk_node 2 64 2)
          (jm_of 2 6 [mk_node 1 64 1, mk_node 2 64 2])) = CJ_RES_MASTER_TRANSFER
   \<and> fst (sd_check_join_cb env5 sys_wait (mk_node 2 64 2)
          (jm_of 2 3 [mk_node 1 64 1, mk_node 2 64 2])) = CJ_RES_JOIN_LATER"
proof -
  let ?n = "mk_node 2 64 2"
  let ?jm6 = "jm_of 2 6 [mk_node 1 64 1, mk_node 2 64 2]"
  have a: "jm_proto_ver ?jm6 = SD_SHEEP_PROTO_VER env5"
    by (simp add: jm_of_def env5_def)
  have b: "\<not> node_eq ?n (this_node sys_wait)"
    by (simp add: node_eq_def mk_node_def sys_wait_def)
  have c: "jm_result (fst (snd (sd_check_join_cb env5 sys_wait ?n ?jm6))) \<noteq> SD_RES_SUCCESS"
    by (simp add: sd_check_join_cb_def get_cluster_status_def cluster_sanity_check_def
        sys_stat_defs env5_def sys_wait_def jm_of_def mk_node_def node_eq_def)
  have d: "jm_epoch ?jm6 > sys_epoch sys_wait \<and> sys_status sys_wait = SD_STATUS_WAIT_FOR_JOIN"
    by (simp add: jm_of_def sys_wait_def)
  have first: "fst (sd_check_join_cb env5 sys_wait ?n ?jm6) = CJ_RES_MASTER_TRANSFER"
    using master_transfer_iff [of env5 sys_wait ?n ?jm6] a b c d by blast
  have second: "fst (sd_check_join_cb env5 sys_wait ?n
          (jm_of 2 3 [mk_node 1 64 1, mk_node 2 64 2])) = CJ_RES_JOIN_LATER"
    by (simp add: sd_check_join_cb_def get_cluster_status_def cluster_sanity_check_def
        sys_stat_defs env5_def sys_wait_def jm_of_def mk_node_def node_eq_def)
  from first second show ?thesis by simp
qed

text \<open>
  Node 2 joins with epoch 6 and protocol version 1 where the local version is 2: the
  candidate is not the local node, the result stored in the message is a failure
  (VerMismatch), its epoch is greater than the local epoch 5, the local status is
  WaitJoin, and the answer is Fail.
\<close>

theorem master_transfer_counterexample:
  "\<not> node_eq (mk_node 2 64 2) (this_node sys_wait) \<and>
   jm_result (fst (snd (sd_check_join_cb env5 sys_wait (mk_node 2 64 2)
       (jm_of 1 6 [mk_node 1 64 1, mk_node 2 64 2])))) = SD_RES_VER_MISMATCH \<and>
   jm_epoch (jm_of 1 6 [mk_node 1 64 1, mk_node 2 64 2]) > sys_epoch sys_wait \<and>
   sys_status sys_wait = SD_STATUS_WAIT_FOR_JOIN \<and>
   fst (sd_check_join_cb env5 sys_wait (mk_node 2 64 2)
       (jm_of 1 6 [mk_node 1 64 1, mk_node 2 64 2])) = CJ_RES_FAIL"
  by (simp add: sd_check_join_cb_def env5_def sys_wait_def jm_of_def mk_node_def node_eq_def)

text \<open>
  Claim C5, as the code has it: the sanity check is skipped in WaitFormat and
  Shutdown, the protocol version is checked first, and a failure with an epoch above
  \<open>sys->epoch\<close> in WaitJoin is answered MasterTransfer.  For every candidate other than
  the local node whose protocol version matches, with a non-empty node list and a
  matching ctime, when the local status is none of Ok, Halt, WaitFormat and Shutdown and
  the candidate's epoch does not exceed \<open>sys->epoch\<close>: if the candidate's epoch is
  strictly below the local latest epoch, the answer is JoinLater with error NewNodeVer;
  if it equals the local latest epoch and the member list differs from the log entry of
  that epoch (same length, different content), the answer is Fail with error
  InvalidEpoch.
\<close>

theorem sanity_check_rejections:
  assumes ver: "jm_proto_ver jm = SD_SHEEP_PROTO_VER e"
    and peer: "\<not> node_eq joining (this_node sys)"
    and nonempty: "jm_nr_nodes jm \<noteq> 0"
    and ctime: "jm_ctime jm = cluster_ctime e"
    and status: "sys_status sys \<notin> {SD_STATUS_OK, SD_STATUS_HALT, SD_STATUS_WAIT_FOR_FORMAT,
                                   SD_STATUS_SHUTDOWN}"
    and epoch: "jm_epoch jm \<le> sys_epoch sys"
  shows "(jm_epoch jm < latest_epoch e \<longrightarrow>
            fst (sd_check_join_cb e sys joining jm) = CJ_RES_JOIN_LATER \<and>
            jm_result (fst (snd (sd_check_join_cb e sys joining jm))) = SD_RES_NEW_NODE_VER)
       \<and> (jm_epoch jm = latest_epoch e \<and> epoch_log e (jm_epoch jm) = Some ns \<and>
          length ns = unat (jm_nr_nodes jm) \<and>
          take (unat (jm_nr_nodes jm)) (jm_nodes jm) \<noteq> ns \<longrightarrow>
            fst (sd_check_join_cb e sys joining jm) = CJ_RES_FAIL \<and>
            jm_result (fst (snd (sd_check_join_cb e sys joining jm))) = SD_RES_INVALID_EPOCH)"
proof -
  have nz: "uint (jm_nr_nodes jm) \<noteq> 0" using nonempty by (simp add: uint_0_iff)
  have nomt: "\<not> (jm_epoch jm > sys_epoch sys \<and> sys_status sys = SD_STATUS_WAIT_FOR_JOIN)"
    using epoch by auto
  have older: "fst (sd_check_join_cb e sys joining jm) = CJ_RES_JOIN_LATER \<and>
      jm_result (fst (snd (sd_check_join_cb e sys joining jm))) = SD_RES_NEW_NODE_VER"
    if lt: "jm_epoch jm < latest_epoch e"
  proof -
    have "cluster_sanity_check e sys (jm_nodes jm) (uint (jm_nr_nodes jm)) (jm_ctime jm)
            (jm_epoch jm) = SD_RES_NEW_NODE_VER"
      using nz ctime status lt by (auto simp: cluster_sanity_check_def sys_stat_defs)
    then have g: "get_cluster_status e sys joining (jm_nodes jm) (uint (jm_nr_nodes jm))
           (jm_ctime jm) (jm_epoch jm) = (SD_RES_NEW_NODE_VER, sys_status sys, 0)"
      by (simp add: get_cluster_status_def)
    from sd_check_join_cb_peer [OF ver peer g] nomt show ?thesis by auto
  qed
  have differs: "fst (sd_check_join_cb e sys joining jm) = CJ_RES_FAIL \<and>
      jm_result (fst (snd (sd_check_join_cb e sys joining jm))) = SD_RES_INVALID_EPOCH"
    if h: "jm_epoch jm = latest_epoch e \<and> epoch_log e (jm_epoch jm) = Some ns \<and>
          length ns = unat (jm_nr_nodes jm) \<and>
          take (unat (jm_nr_nodes jm)) (jm_nodes jm) \<noteq> ns"
  proof -
    have "cluster_sanity_check e sys (jm_nodes jm) (uint (jm_nr_nodes jm)) (jm_ctime jm)
            (jm_epoch jm) = SD_RES_INVALID_EPOCH"
      using nz ctime status h
      by (auto simp: cluster_sanity_check_def sys_stat_defs epoch_log_read_nr_def)
    then have g: "get_cluster_status e sys joining (jm_nodes jm) (uint (jm_nr_nodes jm))
           (jm_ctime jm) (jm_epoch jm) = (SD_RES_INVALID_EPOCH, sys_status sys, 0)"
      by (simp add: get_cluster_status_def)
    from sd_check_join_cb_peer [OF ver peer g] nomt show ?thesis by auto
  qed
  from older differs show ?thesis by blast
qed

text \<open>
  Node 2 joins the waiting node 1: with epoch 3 and two members it is told to join later,
  with epoch 5 and the members 1, 2 and 4 (the log has 1, 2 and 3) it fails.
\<close>

theorem sanity_check_rejections_witness:
  "fst (sd_check_join_cb env5 sys_wait (mk_node 2 64 2)
          (jm_of 2 3 [mk_node 1 64 1, mk_node 2 64 2])) = CJ_RES_JOIN_LATER
   \<and> jm_result (fst (snd (sd_check_join_cb env5 sys_wait (mk_node 2 64 2)
          (jm_of 2 3 [mk_node 1 64 1, mk_node 2 64 2])))) = SD_RES_NEW_NODE_VER
   \<and> fst (sd_check_join_cb env5 sys_wait (mk_node 2 64 2)
          (jm_of 2 5 [mk_node 1 64 1, mk_node 2 64 2, mk_node 4 64 4])) = CJ_RES_FAIL
   \<and> jm_result (fst (snd (sd_check_join_cb env5 sys_wait (mk_node 2 64 2)
          (jm_of 2 5 [mk_node 1 64 1, mk_node 2 64 2, mk_node 4 64 4])))) = SD_RES_INVALID_EPOCH"
proof -
  let ?n = "mk_node 2 64 2"
  let ?jm3 = "jm_of 2 3 [mk_node 1 64 1, mk_node 2 64 2]"
  let ?jm5 = "jm_of 2 5 [mk_node 1 64 1, mk_node 2 64 2, mk_node 4 64 4]"
  let ?ns = "[mk_node 1 64 1, mk_node 2 64 2, mk_node 3 64 3]"
  have peer: "\<not> node_eq ?n (this_node sys_wait)"
    by (simp add: node_eq_def mk_node_def sys_wait_def)
  have status: "sys_status sys_wait \<notin> {SD_STATUS_OK, SD_STATUS_HALT, SD_STATUS_WAIT_FOR_FORMAT,
                                   SD_STATUS_SHUTDOWN}"
    by (simp add: sys_wait_def)
  have v3: "jm_proto_ver ?jm3 = SD_SHEEP_PROTO_VER env5" and n3: "jm_nr_nodes ?jm3 \<noteq> 0"
    and c3: "jm_ctime ?jm3 = cluster_ctime env5" and e3: "jm_epoch ?jm3 \<le> sys_epoch sys_wait"
    and l3: "jm_epoch ?jm3 < latest_epoch env5"
    by (simp_all add: jm_of_def env5_def sys_wait_def)
  have v5: "jm_proto_ver ?jm5 = SD_SHEEP_PROTO_VER env5" and n5: "jm_nr_nodes ?jm5 \<noteq> 0"
    and c5: "jm_ctime ?jm5 = cluster_ctime env5" and e5: "jm_epoch ?jm5 \<le> sys_epoch sys_wait"
    by (simp_all add: jm_of_def env5_def sys_wait_def)
  have l5: "jm_epoch ?jm5 = latest_epoch env5 \<and> epoch_log env5 (jm_epoch ?jm5) = Some ?ns \<and>
          length ?ns = unat (jm_nr_nodes ?jm5) \<and>
          take (unat (jm_nr_nodes ?jm5)) (jm_nodes ?jm5) \<noteq> ?ns"
    by (simp add: jm_of_def env5_def log5_def mk_node_def)
  from sanity_check_rejections [OF v3 peer n3 c3 status e3, of ?ns] l3
       sanity_check_rejections [OF v5 peer n5 c5 status e5, of ?ns] l5
  show ?thesis by blast
qed

text \<open>
  The local node is in Shutdown, so it cannot recover; node 2 joins with a non-empty
  node list, the matching ctime and epoch 3, strictly below the latest epoch 5.  The
  answer is Fail with error Shutdown, not JoinLater with NewNodeVer.
\<close>

theorem sanity_check_counterexample:
  "\<not> node_eq (mk_node 2 64 2) (this_node (sys_wait\<lparr>sys_status := SD_STATUS_SHUTDOWN\<rparr>)) \<and>
   jm_nr_nodes (jm_of 2 3 [mk_node 1 64 1, mk_node 2 64 2]) \<noteq> 0 \<and>
   jm_ctime (jm_of 2 3 [mk_node 1 64 1, mk_node 2 64 2]) = cluster_ctime env5 \<and>
   \<not> sys_can_recover (sys_wait\<lparr>sys_status := SD_STATUS_SHUTDOWN\<rparr>) \<and>
   jm_epoch (jm_of 2 3 [mk_node 1 64 1, mk_node 2 64 2]) < latest_epoch env5 \<and>
   fst (sd_check_join_cb env5 (sys_wait\<lparr>sys_status := SD_STATUS_SHUTDOWN\<rparr>) (mk_node 2 64 2)
          (jm_of 2 3 [mk_node 1 64 1, mk_node 2 64 2])) = CJ_RES_FAIL \<and>
   jm_result (fst (snd (sd_check_join_cb env5 (sys_wait\<lparr>sys_status := SD_STATUS_SHUTDOWN\<rparr>)
          (mk_node 2 64 2) (jm_of 2 3 [mk_node 1 64 1, mk_node 2 64 2])))) = SD_RES_SHUTDOWN"
  by (simp add: sd_check_join_cb_def get_cluster_status_def cluster_sanity_check_def
        sys_stat_defs env5_def sys_wait_def jm_of_def mk_node_def node_eq_def)

subsection \<open>Size of a join message\<close>

text \<open>
  Claim C7 at a message the callback itself produces.  A freshly created node 9 (empty
  node list) joins the waiting node 1, whose leave-set holds node 3.  The callback
  answers Success and copies the leave-set into the message: \<open>nr_nodes\<close> is 0 and
  \<open>nr_leave_nodes\<close> is 1.  \<open>get_join_message_size\<close> gives the size of the header alone,
  where the header and \<open>max(nr_nodes, nr_leave_nodes)\<close> nodes take one node more.
\<close>

theorem join_message_size_fresh_node:
  "(case sd_check_join_cb env5 sys_wait (mk_node 9 64 9) (jm_of 2 0 []) of
      (r, jm', sys') \<Rightarrow>
        r = CJ_RES_SUCCESS \<and> jm_nr_nodes jm' = 0 \<and> jm_nr_leave_nodes jm' = 1 \<and>
        take (unat (jm_nr_leave_nodes jm')) (jm_nodes jm') = [mk_node 3 64 3] \<and>
        get_join_message_size sizeof_jm sizeof_node jm' = sizeof_jm \<and>
        sizeof_jm + max (unat (jm_nr_nodes jm')) (unat (jm_nr_leave_nodes jm')) * sizeof_node
          = sizeof_jm + sizeof_node)"
  by (simp add: sd_check_join_cb_def get_cluster_status_def cluster_sanity_check_def
        sys_stat_defs env5_def sys_wait_def jm_of_def mk_node_def node_eq_def
        epoch_log_read_nr_def log5_def get_nodes_nr_from_def get_join_message_size_def)

subsection \<open>The rejected join and the leave-set\<close>



text \<open>
  The count \<open>get_nodes_nr_epoch\<close> computes: the number of nodes of the entry when the
  epoch has one, a negative number when it has none.
\<close>

lemma get_nodes_nr_epoch_missing:
  "epoch_log e epoch = None \<Longrightarrow> get_nodes_nr_epoch e epoch = - 1431655766"
  by (simp add: get_nodes_nr_epoch_def epoch_log_read_def sizeof_sd_node_def to_size_t_def
      to_int32_def)








subsection \<open>The join event\<close>

lemma get_vdi_bitmap_from_frame:
  "vs_status (snd (get_vdi_bitmap_from peer n s)) = vs_status s"
  "vs_this_node (snd (get_vdi_bitmap_from peer n s)) = vs_this_node s"
  by (auto simp: get_vdi_bitmap_from_def Let_def split: vdi_reply.splits)

lemma get_vdi_bitmap_from_peer:
  "\<not> node_eq n (vs_this_node s) \<Longrightarrow>
   connected (snd (get_vdi_bitmap_from peer n s)) = connected s @ [n]"
  by (auto simp: get_vdi_bitmap_from_def is_myself_def node_eq_def Let_def split: vdi_reply.splits)

lemma sd_join_loop_all:
  "vs_status s \<noteq> SD_STATUS_WAIT_FOR_FORMAT \<Longrightarrow>
   connected (sd_join_loop peer ns s) =
     connected s @ filter (\<lambda>n. \<not> node_eq n (vs_this_node s)) ns"
proof (induction ns arbitrary: s)
  case Nil
  show ?case by simp
next
  case (Cons n ns)
  show ?case
  proof (cases "node_eq n (vs_this_node s)")
    case True
    with Cons show ?thesis by simp
  next
    case False
    let ?s1 = "snd (get_vdi_bitmap_from peer n s)"
    have st: "vs_status ?s1 \<noteq> SD_STATUS_WAIT_FOR_FORMAT"
      using Cons.prems by (simp add: get_vdi_bitmap_from_frame)
    from Cons.IH [OF st] False st show ?thesis
      by (simp add: Let_def get_vdi_bitmap_from_frame get_vdi_bitmap_from_peer)
  qed
qed

lemma sd_join_loop_first:
  "vs_status s = SD_STATUS_WAIT_FOR_FORMAT \<Longrightarrow>
   connected (sd_join_loop peer ns s) =
     connected s @ take 1 (filter (\<lambda>n. \<not> node_eq n (vs_this_node s)) ns)"
proof (induction ns arbitrary: s)
  case Nil
  show ?case by simp
next
  case (Cons n ns)
  then show ?case
    by (simp add: Let_def get_vdi_bitmap_from_frame get_vdi_bitmap_from_peer)
qed

text \<open>
  Claim C8, as the code has it: the handler does nothing unless the delivered cluster
  status is Ok or Halt and the local status is not Ok.  Past that test, when the local
  status is not WaitFormat it tries to fetch the bitmap from every peer other than the
  local node, in list order, whatever the earlier fetches gave; when the local status
  is WaitFormat it tries the first such peer, and when that fetch succeeds it tries no
  other peer.
\<close>

theorem sd_join_fetches:
  "(\<not> (jm_cluster_status (wj_jm w) \<in> {SD_STATUS_OK, SD_STATUS_HALT} \<and>
        vs_status s \<noteq> SD_STATUS_OK)
      \<longrightarrow> sd_join peer w s = s)
   \<and> (jm_cluster_status (wj_jm w) \<in> {SD_STATUS_OK, SD_STATUS_HALT} \<and>
      vs_status s \<noteq> SD_STATUS_OK \<and> vs_status s \<noteq> SD_STATUS_WAIT_FOR_FORMAT
      \<longrightarrow> connected (sd_join peer w s) = connected s @ peers_of s w)
   \<and> (jm_cluster_status (wj_jm w) \<in> {SD_STATUS_OK, SD_STATUS_HALT} \<and>
      vs_status s = SD_STATUS_WAIT_FOR_FORMAT
      \<longrightarrow> (peers_of s w = [] \<longrightarrow> connected (sd_join peer w s) = connected s) \<and>
          (\<forall>p ps. peers_of s w = p # ps \<longrightarrow>
             (\<exists>rest. connected (sd_join peer w s) = connected s @ p # rest) \<and>
             (fetch_ok peer p \<longrightarrow> connected (sd_join peer w s) = connected s @ [p])))"
proof -
  have a: "sd_join peer w s = s"
    if "\<not> (jm_cluster_status (wj_jm w) \<in> {SD_STATUS_OK, SD_STATUS_HALT} \<and>
        vs_status s \<noteq> SD_STATUS_OK)"
    using that by (auto simp: sd_join_def)
  have b: "connected (sd_join peer w s) = connected s @ peers_of s w"
    if "jm_cluster_status (wj_jm w) \<in> {SD_STATUS_OK, SD_STATUS_HALT} \<and>
      vs_status s \<noteq> SD_STATUS_OK \<and> vs_status s \<noteq> SD_STATUS_WAIT_FOR_FORMAT"
    using that sd_join_loop_all [of s peer "take (wj_member_list_entries w) (wj_member_list w)"]
    by (auto simp: sd_join_def peers_of_def)
  have c: "connected (sd_join peer w s) = connected s @ take 1 (peers_of s w)"
    if "jm_cluster_status (wj_jm w) \<in> {SD_STATUS_OK, SD_STATUS_HALT} \<and>
      vs_status s = SD_STATUS_WAIT_FOR_FORMAT"
    using that sd_join_loop_first [of s peer "take (wj_member_list_entries w) (wj_member_list w)"]
    by (auto simp: sd_join_def peers_of_def)
  from a b c show ?thesis by auto
qed

text \<open>
  The members 1, 2 and 3 are delivered to node 1.  When node 1 is running (status Ok) it
  contacts no peer.  When node 1 is in WaitFormat and node 2 refuses the connection, the
  handler stops after node 2: node 3, which would send its bitmap, is not tried and no
  VDI is learnt.
\<close>

theorem sd_join_counterexample:
  "peers_of (fresh_state\<lparr>vs_status := SD_STATUS_OK\<rparr>) join_of_three = [mk_node 2 64 2, mk_node 3 64 3]
   \<and> connected (sd_join all_up join_of_three (fresh_state\<lparr>vs_status := SD_STATUS_OK\<rparr>)) = []
   \<and> peers_of fresh_state join_of_three = [mk_node 2 64 2, mk_node 3 64 3]
   \<and> \<not> fetch_ok node2_down (mk_node 2 64 2) \<and> fetch_ok node2_down (mk_node 3 64 3)
   \<and> connected (sd_join node2_down join_of_three fresh_state) = [mk_node 2 64 2]
   \<and> vdi_inuse (sd_join node2_down join_of_three fresh_state) = {}"
  by (simp add: peers_of_def fresh_state_def join_of_three_def jm_of_def sd_join_def
      get_vdi_bitmap_from_def is_myself_def node_eq_def mk_node_def node2_down_def all_up_def
      fetch_ok_def Let_def)

text \<open>
  With every peer answering: in WaitJoin nodes 2 and 3 are contacted, in WaitFormat node 2
  alone, and with status Ok the state is unchanged.
\<close>

theorem sd_join_fetches_witness:
  "connected (sd_join all_up join_of_three (fresh_state\<lparr>vs_status := SD_STATUS_WAIT_FOR_JOIN\<rparr>))
     = [mk_node 2 64 2, mk_node 3 64 3]
   \<and> connected (sd_join all_up join_of_three fresh_state) = [mk_node 2 64 2]
   \<and> sd_join all_up join_of_three (fresh_state\<lparr>vs_status := SD_STATUS_OK\<rparr>)
       = fresh_state\<lparr>vs_status := SD_STATUS_OK\<rparr>"
proof -
  have g: "jm_cluster_status (wj_jm join_of_three) = SD_STATUS_OK"
    by (simp add: join_of_three_def)
  have p: "peers_of fresh_state join_of_three = [mk_node 2 64 2, mk_node 3 64 3]"
    "peers_of (fresh_state\<lparr>vs_status := SD_STATUS_WAIT_FOR_JOIN\<rparr>) join_of_three
       = [mk_node 2 64 2, mk_node 3 64 3]"
    by (simp_all add: peers_of_def fresh_state_def join_of_three_def node_eq_def mk_node_def)
  have f: "fetch_ok all_up (mk_node 2 64 2)" by (simp add: fetch_ok_def all_up_def)
  have s: "vs_status fresh_state = SD_STATUS_WAIT_FOR_FORMAT" "connected fresh_state = []"
    by (simp_all add: fresh_state_def)
  from sd_join_fetches [of join_of_three "fresh_state\<lparr>vs_status := SD_STATUS_WAIT_FOR_JOIN\<rparr>" all_up]
    g p s
  have one: "connected (sd_join all_up join_of_three
      (fresh_state\<lparr>vs_status := SD_STATUS_WAIT_FOR_JOIN\<rparr>)) = [mk_node 2 64 2, mk_node 3 64 3]"
    by simp
  from sd_join_fetches [of join_of_three fresh_state all_up] g p f s
  have two: "connected (sd_join all_up join_of_three fresh_state) = [mk_node 2 64 2]"
    by simp
  from sd_join_fetches [of join_of_three "fresh_state\<lparr>vs_status := SD_STATUS_OK\<rparr>" all_up]
  have three: "sd_join all_up join_of_three (fresh_state\<lparr>vs_status := SD_STATUS_OK\<rparr>)
       = fresh_state\<lparr>vs_status := SD_STATUS_OK\<rparr>"
    by simp
  from one two three show ?thesis by simp
qed

subsection \<open>Event serialization\<close>

lemma dispatch_request_frame:
  "event_wqueue (dispatch_request req s) = event_wqueue s"
  "event_running (dispatch_request req s) = event_running s"
  "cur_cevent (dispatch_request req s) = cur_cevent s"
  "event_queue (dispatch_request req s) = event_queue s"
  "request_queue (dispatch_request req s) = request_queue s"
  by (simp_all add: dispatch_request_def Let_def split: op_type.splits)

lemma process_requests_frame:
  "event_wqueue (process_requests rs s) = event_wqueue s \<and>
   event_running (process_requests rs s) = event_running s \<and>
   cur_cevent (process_requests rs s) = cur_cevent s \<and>
   event_queue (process_requests rs s) = event_queue s"
  by (induction rs arbitrary: s) (simp_all add: dispatch_request_frame)

lemma process_requests_drains:
  "request_queue (process_requests rs s) = (if rs = [] then request_queue s else [])"
  by (induction rs arbitrary: s) (simp_all add: dispatch_request_frame)

lemma process_request_queue_frame:
  "event_wqueue (process_request_queue s) = event_wqueue s"
  "event_running (process_request_queue s) = event_running s"
  "cur_cevent (process_request_queue s) = cur_cevent s"
  "event_queue (process_request_queue s) = event_queue s"
  by (simp_all add: process_request_queue_def process_requests_frame)

lemma process_request_queue_drains: "request_queue (process_request_queue s) = []"
  by (simp add: process_request_queue_def process_requests_drains)

lemma process_event_queue_requests:
  "request_queue (process_event_queue s) = request_queue s"
  "nr_outstanding_io (process_event_queue s) = nr_outstanding_io s"
  "outstanding_req_list (process_event_queue s) = outstanding_req_list s"
  by (simp_all add: process_event_queue_def split: list.splits)

lemma serial_inv_process:
  "serial_inv s \<Longrightarrow> serial_inv (process_request_event_queues s)"
proof (cases "event_queue s = []")
  case True
  assume "serial_inv s"
  with True show ?thesis
    by (auto simp: process_request_event_queues_def serial_inv_def process_request_queue_frame)
next
  case False
  assume "serial_inv s"
  with False show ?thesis
    by (auto simp: process_request_event_queues_def process_event_queue_def serial_inv_def
        split: list.splits)
qed

lemma serial_inv_reachable: "reachable s \<Longrightarrow> serial_inv s"
proof (induction rule: reachable.induct)
  case reach_init
  show ?case by (simp add: serial_inv_def queues_init_def)
next
  case (reach_add_event s cevent)
  then show ?case by (auto simp: serial_inv_def)
next
  case (reach_event_complete s cevent)
  then show ?case by (cases "event_wqueue s") (auto simp: serial_inv_def)
next
  case (reach_add_request s req)
  then show ?case by (auto simp: serial_inv_def)
next
  case (reach_io_complete s req)
  then show ?case by (auto simp: serial_inv_def)
next
  case (reach_process s)
  from reach_process.IH show ?case by (rule serial_inv_process)
qed

text \<open>The handlers and completions lead from reachable states to reachable states.\<close>

lemma reachable_queue_event: "reachable s \<Longrightarrow> reachable (queue_event cevent s)"
  unfolding queue_event_def by (intro reach_process reach_add_event)

lemma reachable_queue_request: "reachable s \<Longrightarrow> reachable (queue_request req s)"
  unfolding queue_request_def by (intro reach_process reach_add_request)

lemma reachable_io_done:
  "reachable s \<Longrightarrow> req \<in> set (outstanding_req_list s) \<Longrightarrow> reachable (io_done req s)"
  unfolding io_done_def by (intro reach_process reach_io_complete)

lemma reachable_event_done:
  "reachable s \<Longrightarrow> event_done s = Some s' \<Longrightarrow> reachable s'"
  by (auto simp: event_done_def split: option.splits intro!: reach_process
      intro: reach_event_complete)

lemma dispatch_iff:
  "(event_wqueue (process_request_event_queues s) \<noteq> event_wqueue s) =
     (event_queue s \<noteq> [] \<and> \<not> event_running s \<and> nr_outstanding_io s = 0)"
  by (auto simp: process_request_event_queues_def process_event_queue_def
      process_request_queue_frame split: if_splits list.splits)

lemma requests_kept:
  "event_queue s \<noteq> [] \<Longrightarrow>
   request_queue (process_request_event_queues s) = request_queue s \<and>
   nr_outstanding_io (process_request_event_queues s) = nr_outstanding_io s"
  by (simp add: process_request_event_queues_def process_event_queue_requests)

lemma requests_drained:
  "event_queue s = [] \<Longrightarrow> request_queue (process_request_event_queues s) = []"
  by (simp add: process_request_event_queues_def process_request_queue_drains)

text \<open>
  Claim C1, as the code has it: the test of \<open>event_running\<close> and of the I/O counter
  guards the dispatch of an event; nothing guards the dispatch of requests against a
  running event.  In every state the main thread reaches, the states in which
  \<open>process_request_event_queues\<close> is called among them, at most one event is being
  executed, and \<open>event_running\<close> tells whether one is.  In every state whatever,
  \<open>process_request_event_queues\<close> dispatches an event exactly when the event queue is
  not empty, no event is running (\<open>event_running == 0\<close>) and there is no outstanding
  object I/O (\<open>sys->nr_outstanding_io == 0\<close>); when the event queue is not empty it
  leaves the request queue and the I/O counter as they are; when the event queue is
  empty it empties the request queue.
\<close>

theorem event_serialization:
  "(reachable s \<longrightarrow> length (event_wqueue s) \<le> 1 \<and> event_running s = (event_wqueue s \<noteq> []))
   \<and> ((event_wqueue (process_request_event_queues s) \<noteq> event_wqueue s) =
        (event_queue s \<noteq> [] \<and> \<not> event_running s \<and> nr_outstanding_io s = 0))
   \<and> (event_queue s \<noteq> [] \<longrightarrow>
        request_queue (process_request_event_queues s) = request_queue s \<and>
        nr_outstanding_io (process_request_event_queues s) = nr_outstanding_io s)
   \<and> (event_queue s = [] \<longrightarrow> request_queue (process_request_event_queues s) = [])"
proof -
  have "reachable s \<longrightarrow> length (event_wqueue s) \<le> 1 \<and> event_running s = (event_wqueue s \<noteq> [])"
    using serial_inv_reachable [of s] by (auto simp: serial_inv_def)
  with dispatch_iff [of s] requests_kept [of s] requests_drained [of s]
  show ?thesis by blast
qed

text \<open>
  The notify event delivered to the idle node is dispatched by the call; the one
  delivered while an I/O is outstanding stays in the queue, and the call starts nothing.
\<close>

theorem event_serialization_witness:
  "reachable idle_delivered \<and> length (event_wqueue idle_delivered) \<le> 1
   \<and> event_wqueue (process_request_event_queues idle_delivered) \<noteq> event_wqueue idle_delivered
   \<and> reachable busy_delivered \<and> length (event_wqueue busy_delivered) \<le> 1
   \<and> event_wqueue (process_request_event_queues busy_delivered) = event_wqueue busy_delivered
   \<and> request_queue (process_request_event_queues busy_delivered) = request_queue busy_delivered"
proof -
  have ri: "reachable idle_delivered"
    unfolding idle_delivered_def using reach_add_event [OF reach_init, of ev1]
    by (simp add: queues_init_def)
  have rb: "reachable busy_delivered"
    unfolding busy_delivered_def
    using reach_add_event [OF reachable_queue_request [OF reach_init, of io1], of ev1]
    by (simp add: queue_request_def process_request_event_queues_def
        process_request_queue_def dispatch_request_def queues_init_def io1_def Let_def)
  have vi: "event_queue idle_delivered \<noteq> [] \<and> \<not> event_running idle_delivered \<and>
      nr_outstanding_io idle_delivered = 0"
    by (simp add: idle_delivered_def queues_init_def)
  have vb: "event_queue busy_delivered \<noteq> [] \<and> nr_outstanding_io busy_delivered = 1"
    by (simp add: busy_delivered_def queue_request_def process_request_event_queues_def
        process_request_queue_def dispatch_request_def queues_init_def io1_def Let_def)
  from event_serialization [of idle_delivered] event_serialization [of busy_delivered]
    ri rb vi vb
  show ?thesis by auto
qed

text \<open>
  A notify event is delivered to the idle node and dispatched; while it is being executed
  a client read arrives.  The event queue is empty, so the request is dispatched: the
  event is executing and one object I/O is outstanding.
\<close>

theorem event_serialization_counterexample:
  "reachable (queue_request io1 (queue_event ev1 queues_init))
   \<and> event_wqueue (queue_request io1 (queue_event ev1 queues_init)) = [ev1]
   \<and> event_running (queue_request io1 (queue_event ev1 queues_init))
   \<and> nr_outstanding_io (queue_request io1 (queue_event ev1 queues_init)) = 1
   \<and> outstanding_req_list (queue_request io1 (queue_event ev1 queues_init)) = [io1]"
proof -
  have r: "reachable (queue_request io1 (queue_event ev1 queues_init))"
    by (intro reachable_queue_request reachable_queue_event reach_init)
  have "event_wqueue (queue_request io1 (queue_event ev1 queues_init)) = [ev1]
   \<and> event_running (queue_request io1 (queue_event ev1 queues_init))
   \<and> nr_outstanding_io (queue_request io1 (queue_event ev1 queues_init)) = 1
   \<and> outstanding_req_list (queue_request io1 (queue_event ev1 queues_init)) = [io1]"
    by (simp add: queue_request_def queue_event_def process_request_event_queues_def
        process_event_queue_def process_request_queue_def dispatch_request_def queues_init_def
        io1_def Let_def)
  with r show ?thesis by simp
qed

end
